theory Spec2Isabelle
  imports Complex_Main
begin

section \<open>Values shared by the aligners of libEM/aligner.cpp\<close>

text \<open>
  The aligners work on \<^verbatim>\<open>float\<close> scores, angles and shifts. A float is modelled
  by the \<^typ>\<open>real\<close> it stands for: the comparisons of finite floats agree with those
  of the reals. The arithmetic of the translational and rotational aligners (negating
  an integer peak, halving it, adding one half and taking the floor) is exact in
  single precision for every offset an image can hold. Where a result is rounded, in
  the conversions of the options and in the counters of the exhaustive searches, the
  rounding is written out. NaN and the infinities are outside the model.

  C++ integer division and the conversion from a floating-point value to \<^verbatim>\<open>int\<close>
  truncate towards zero.
\<close>

definition c_div :: "int \<Rightarrow> int \<Rightarrow> int" where
  "c_div a b = sgn a * sgn b * (\<bar>a\<bar> div \<bar>b\<bar>)"

definition c_trunc :: "real \<Rightarrow> int" where
  "c_trunc x = (if 0 \<le> x then \<lfloor>x\<rfloor> else \<lceil>x\<rceil>)"

text \<open>
  A conversion to \<^verbatim>\<open>int\<close> whose truncated value does not fit 32 bits is undefined
  in C++; the conversion instruction of the x86 returns \<^verbatim>\<open>INT_MIN\<close> there, and so
  does the model.
\<close>

definition INT_MIN :: int where
  "INT_MIN = - 2147483648"

definition INT_MAX :: int where
  "INT_MAX = 2147483647"

definition int_cast :: "real \<Rightarrow> int" where
  "int_cast x = (if INT_MIN \<le> c_trunc x \<and> c_trunc x \<le> INT_MAX then c_trunc x else INT_MIN)"

text \<open>
  Rounding to a binary floating-point format with a significand of \<open>p\<close> bits and
  least exponent \<open>emin\<close> (IEEE 754, round to nearest, ties to the even significand,
  with gradual underflow): the value is rounded to a multiple of the spacing of the
  format at its magnitude. \<^verbatim>\<open>float\<close> has 24 bits and least exponent -126,
  \<^verbatim>\<open>double\<close> 53 bits and -1022. The two zeros are the one real 0, which compares
  as both do. A value beyond the largest finite one is outside the model.
\<close>

definition round_even :: "real \<Rightarrow> int" where
  "round_even y =
     (let f = \<lfloor>y\<rfloor>; d = y - of_int f
      in if d < 1 / 2 then f
         else if 1 / 2 < d then f + 1
         else if even f then f else f + 1)"

definition ieee_round :: "nat \<Rightarrow> int \<Rightarrow> real \<Rightarrow> real" where
  "ieee_round p emin x =
     (if x = 0 then 0
      else (let e = max \<lfloor>log 2 \<bar>x\<bar>\<rfloor> emin;
                ulp = 2 powr (of_int e - of_nat (p - 1))
            in of_int (round_even (x / ulp)) * ulp))"

definition float_round :: "real \<Rightarrow> real" where
  "float_round x = ieee_round 24 (- 126) x"

definition double_round :: "real \<Rightarrow> real" where
  "double_round x = ieee_round 53 (- 1022) x"

definition int_to_float :: "int \<Rightarrow> real" where
  "int_to_float n = float_round (of_int n)"

text \<open>
  \<^verbatim>\<open>M_PI\<close> is the \<^verbatim>\<open>double\<close> nearest to the decimal 3.14159265358979323846
  (line 5 of emobject.cpp): 884279719003555 / 2^48.
\<close>

definition M_PI :: real where
  "M_PI = 884279719003555 / 281474976710656"

type_synonym Vec3f = "real \<times> real \<times> real"

type_synonym IntPoint = "int \<times> int \<times> int"

subsection \<open>Exceptions and null pointers\<close>

text \<open>
  An \<^verbatim>\<open>EMData *\<close> is an option: \<open>None\<close> is the null pointer. A call returns
  \<open>Inl e\<close> when the source throws \<open>e\<close>, \<open>Inr None\<close> when it returns the null pointer
  and \<open>Inr (Some img)\<close> when it returns an image. Calling a member function through a
  null pointer is undefined behaviour in C++; the model records it as the failure
  \<open>NullPointerDereference\<close>, which is no exception of the library.
\<close>

datatype error =
    ImageDimensionException
  | InvalidParameterException string
  | TypeException
  | NotExistingObjectException
  | NullPointerDereference

definition ebind :: "error + 'a \<Rightarrow> ('a \<Rightarrow> error + 'b) \<Rightarrow> error + 'b" where
  "ebind m f = (case m of Inl e \<Rightarrow> Inl e | Inr v \<Rightarrow> f v)"

definition deref :: "'a option \<Rightarrow> error + 'a" where
  "deref p = (case p of None \<Rightarrow> Inl NullPointerDereference | Some v \<Rightarrow> Inr v)"

subsection \<open>Transform, EMData, EMObject and Dict\<close>

text \<open>
  Modelled from the spec: the class \<^verbatim>\<open>Transform\<close> (transform.h is not among the
  sources). The spec describes it as a rigid motion given by rotation angle,
  translation vector and mirror flag; the aligners only build 2D rotations
  (\<^verbatim>\<open>Dict("type","2d","alpha",a)\<close>), set the translation and set the mirror flag.
\<close>

record Transform =
  alpha :: real
  tx :: real
  ty :: real
  tz :: real
  mirror :: bool

definition Transform_new :: Transform where
  "Transform_new = \<lparr>alpha = 0, tx = 0, ty = 0, tz = 0, mirror = False\<rparr>"

definition Transform_2d :: "real \<Rightarrow> Transform" where
  "Transform_2d a = Transform_new\<lparr>alpha := a\<rparr>"

definition set_rotation :: "real \<Rightarrow> Transform \<Rightarrow> Transform" where
  "set_rotation a t = t\<lparr>alpha := a\<rparr>"

definition set_trans :: "Vec3f \<Rightarrow> Transform \<Rightarrow> Transform" where
  "set_trans v t = (case v of (x, y, z) \<Rightarrow> t\<lparr>tx := x, ty := y, tz := z\<rparr>)"

definition set_mirror :: "bool \<Rightarrow> Transform \<Rightarrow> Transform" where
  "set_mirror m t = t\<lparr>mirror := m\<rparr>"

definition get_trans :: "Transform \<Rightarrow> Vec3f" where
  "get_trans t = (tx t, ty t, tz t)"

text \<open>
  Modelled from the spec: the class \<^verbatim>\<open>EMData\<close> (emdata.h is not among the sources):
  a sample grid of size (nx, ny, nz) with a metadata map. Of the metadata only the
  attached transforms matter to the aligners, so the map holds transforms. Images are
  values here: \<^verbatim>\<open>copy()\<close> is the identity and an in-place operation returns the new
  image.
\<close>

record EMData =
  nx :: int
  ny :: int
  nz :: int
  rdata :: "real list"
  attr_dict :: "string \<rightharpoonup> Transform"

definition dims :: "EMData \<Rightarrow> int \<times> int \<times> int" where
  "dims img = (nx img, ny img, nz img)"

definition is_same_size :: "EMData \<Rightarrow> EMData \<Rightarrow> bool" where
  "is_same_size a b = (nx a = nx b \<and> ny a = ny b \<and> nz a = nz b)"

definition set_attr :: "string \<Rightarrow> Transform \<Rightarrow> EMData \<Rightarrow> EMData" where
  "set_attr key t img = img\<lparr>attr_dict := (attr_dict img)(key \<mapsto> t)\<rparr>"

text \<open>
  \<^verbatim>\<open>get_attr\<close> throws for a key the image does not hold. \<open>update_attr\<close> is the
  idiom \<^verbatim>\<open>Transform* t = img->get_attr(key); t->set...(...)\<close>: the write goes through
  the pointer into the image's own metadata.
\<close>

definition get_attr :: "string \<Rightarrow> EMData \<Rightarrow> error + Transform" where
  "get_attr key img =
     (case attr_dict img key of None \<Rightarrow> Inl NotExistingObjectException | Some t \<Rightarrow> Inr t)"

definition update_attr :: "string \<Rightarrow> (Transform \<Rightarrow> Transform) \<Rightarrow> EMData \<Rightarrow> error + EMData" where
  "update_attr key upd img = ebind (get_attr key img) (\<lambda>t. Inr (set_attr key (upd t) img))"

text \<open>
  \<^verbatim>\<open>EMObject\<close> is the tagged union of emobject.cpp, with the tags aligner.cpp stores
  besides (a flag, a transform, an integer array). A conversion returns the value of
  a matching tag, the zero of the target type for \<open>UNKNOWN\<close>, and throws a
  \<^verbatim>\<open>TypeException\<close> for every other tag. The casts \<^verbatim>\<open>(int) f\<close>, \<^verbatim>\<open>(float) n\<close>
  and \<^verbatim>\<open>(float) d\<close> of the conversion operators truncate and round; the value of a
  \<open>FLOAT\<close> object is a float already.
\<close>

datatype EMObject =
    UNKNOWN
  | BOOL bool
  | INT_obj int
  | FLOAT real
  | DOUBLE real
  | STRING string
  | EMDATA "EMData option"
  | TRANSFORM "Transform option"
  | INTARRAY "int list"

fun to_int :: "EMObject \<Rightarrow> error + int" where
  "to_int (INT_obj n) = Inr n"
| "to_int (FLOAT f) = Inr (int_cast f)"
| "to_int (DOUBLE d) = Inr (int_cast d)"
| "to_int UNKNOWN = Inr 0"
| "to_int (BOOL b) = Inr (if b then 1 else 0)"
| "to_int v = Inl TypeException"

fun to_float :: "EMObject \<Rightarrow> error + real" where
  "to_float (FLOAT f) = Inr f"
| "to_float (INT_obj n) = Inr (int_to_float n)"
| "to_float (DOUBLE d) = Inr (float_round d)"
| "to_float UNKNOWN = Inr 0"
| "to_float v = Inl TypeException"

fun to_bool :: "EMObject \<Rightarrow> error + bool" where
  "to_bool (BOOL b) = Inr b"
| "to_bool (INT_obj n) = Inr (n \<noteq> 0)"
| "to_bool (FLOAT f) = Inr (f \<noteq> 0)"
| "to_bool (DOUBLE d) = Inr (d \<noteq> 0)"
| "to_bool UNKNOWN = Inr False"
| "to_bool v = Inl TypeException"

fun to_EMData :: "EMObject \<Rightarrow> error + EMData option" where
  "to_EMData (EMDATA p) = Inr p"
| "to_EMData UNKNOWN = Inr None"
| "to_EMData v = Inl TypeException"

fun to_Transform :: "EMObject \<Rightarrow> error + Transform option" where
  "to_Transform (TRANSFORM p) = Inr p"
| "to_Transform UNKNOWN = Inr None"
| "to_Transform v = Inl TypeException"

text \<open>
  Modelled from the spec: the class \<^verbatim>\<open>Dict\<close>, the configuration bag (its header is
  not among the sources). \<^verbatim>\<open>d[key]\<close> is the stored object, or the \<open>UNKNOWN\<close> object
  for a key the bag does not hold; \<^verbatim>\<open>set_default(key, v)\<close> stores \<open>v\<close> when the key
  is absent and then reads the key.
\<close>

type_synonym Dict = "string \<rightharpoonup> EMObject"

definition dict_get :: "Dict \<Rightarrow> string \<Rightarrow> EMObject" where
  "dict_get d key = (case d key of None \<Rightarrow> UNKNOWN | Some v \<Rightarrow> v)"

definition set_default :: "Dict \<Rightarrow> string \<Rightarrow> EMObject \<Rightarrow> Dict" where
  "set_default d key v = (case d key of None \<Rightarrow> d(key \<mapsto> v) | Some w \<Rightarrow> d)"

subsection \<open>The image library behind the aligners\<close>

text \<open>
  The numerical kernels the aligners call live in emdata.cpp, processor.cpp, cmp.cpp
  and util.cpp, none of which is among the sources. They are the fields of a record
  the aligners take as a parameter, so that every statement below holds for any
  implementation of them. \<open>process name params img\<close> stands for both
  \<^verbatim>\<open>img->process(name, params)\<close> and \<^verbatim>\<open>img->process_inplace(name, params)\<close>, and
  \<open>cmp name params img with\<close> for \<^verbatim>\<open>img->cmp(name, with, params)\<close>. The operations
  are functions of their arguments: where the source copies an image to protect it
  from an operation that works in place, the copy is the same value. The lookup of a
  processor or comparator by its name is part of \<open>process\<close> and \<open>cmp\<close>.
  \<open>set_pre_trans\<close> is the one operation of \<^verbatim>\<open>Transform\<close> the record above cannot
  express.
\<close>

record backend =
  calc_ccf :: "EMData \<Rightarrow> EMData option \<Rightarrow> EMData"
  calc_ccfx :: "EMData \<Rightarrow> EMData \<Rightarrow> int \<Rightarrow> int \<Rightarrow> EMData"
  calc_max_location_wrap :: "EMData \<Rightarrow> int \<Rightarrow> int \<Rightarrow> int \<Rightarrow> IntPoint"
  zero_corner_circulant :: "int \<Rightarrow> EMData \<Rightarrow> EMData"
  process :: "string \<Rightarrow> Dict \<Rightarrow> EMData \<Rightarrow> EMData"
  cmp :: "string \<Rightarrow> Dict \<Rightarrow> EMData \<Rightarrow> EMData \<Rightarrow> real"
  make_rotational_footprint_e1 :: "EMData \<Rightarrow> EMData"
  make_rotational_footprint :: "EMData \<Rightarrow> EMData"
  make_rotational_footprint_cmc :: "EMData \<Rightarrow> EMData"
  find_max :: "real list \<Rightarrow> int \<Rightarrow> real \<times> int"
  unwrap :: "int \<Rightarrow> int \<Rightarrow> int \<Rightarrow> int \<Rightarrow> int \<Rightarrow> bool \<Rightarrow> EMData \<Rightarrow> EMData"
  calc_best_fft_size :: "int \<Rightarrow> int"
  transform :: "Transform \<Rightarrow> EMData \<Rightarrow> EMData"
  dot_rotate_translate :: "EMData \<Rightarrow> EMData \<Rightarrow> real \<Rightarrow> real \<Rightarrow> real \<Rightarrow> bool \<Rightarrow> real"
  calc_max_index :: "EMData \<Rightarrow> int"
  rotate_x :: "int \<Rightarrow> EMData \<Rightarrow> EMData"
  set_pre_trans :: "real \<times> real \<Rightarrow> Transform \<Rightarrow> Transform"

section \<open>Attaching the alignment transform\<close>

text \<open>
  \<^verbatim>\<open>Aligner::get_set_align_attr\<close> copies the transform \<open>from_image\<close> holds under
  \<open>key\<close> (a fresh one when it holds none) into \<open>img\<close> and returns a pointer to the
  copy; the caller then writes through the pointer. The model takes the caller's
  update \<open>upd\<close> and stores the updated copy. \<^verbatim>\<open>Aligner::get_align_attr\<close> returns the
  transform \<open>img\<close> holds, attaching a fresh one when it holds none.
\<close>

definition get_set_align_attr ::
  "string \<Rightarrow> EMData \<Rightarrow> EMData \<Rightarrow> (Transform \<Rightarrow> Transform) \<Rightarrow> EMData" where
  "get_set_align_attr key img from_image upd =
     (let t = (case attr_dict from_image key of Some t0 \<Rightarrow> t0 | None \<Rightarrow> Transform_new)
      in set_attr key (upd t) img)"

definition get_align_attr ::
  "string \<Rightarrow> EMData \<Rightarrow> (Transform \<Rightarrow> Transform) \<Rightarrow> EMData" where
  "get_align_attr key img upd =
     (let t = (case attr_dict img key of Some t0 \<Rightarrow> t0 | None \<Rightarrow> Transform_new)
      in set_attr key (upd t) img)"

section \<open>TranslationalAligner\<close>

text \<open>
  Lines 122 to 139: the search bound of each axis. \<open>mx\<close>, \<open>my\<close> and \<open>mz\<close> are the
  three reads of the option \<^verbatim>\<open>maxshift\<close>; only the first decides whether the
  defaults apply.
\<close>

definition clamp_maxshift :: "int \<Rightarrow> int \<Rightarrow> int" where
  "clamp_maxshift m n =
     (let m1 = (if m > c_div n 2 - 1 then c_div n 2 - 1 else m)
      in if n = 1 then 0 else m1)"

definition maxshift_bounds :: "int \<Rightarrow> int \<Rightarrow> int \<Rightarrow> EMData \<Rightarrow> IntPoint" where
  "maxshift_bounds mx my mz img =
     (let (sx, sy, sz) =
            (if mx \<le> 0 then (c_div (nx img) 8, c_div (ny img) 8, c_div (nz img) 8)
             else (mx, my, mz))
      in (clamp_maxshift sx (nx img), clamp_maxshift sy (ny img), clamp_maxshift sz (nz img)))"

definition translational_bounds :: "Dict \<Rightarrow> EMData \<Rightarrow> error + IntPoint" where
  "translational_bounds params img =
     (let params1 = set_default params ''maxshift'' (INT_obj (- 1))
      in ebind (to_int (dict_get params1 ''maxshift'')) (\<lambda>mx.
         ebind (to_int (dict_get params1 ''maxshift'')) (\<lambda>my.
         ebind (to_int (dict_get params1 ''maxshift'')) (\<lambda>mz.
           Inr (maxshift_bounds mx my mz img)))))"

text \<open>
  Lines 158 to 168: the translation is the negated peak; without a reference it is
  halved, and rounded when \<^verbatim>\<open>intonly\<close> is set.
\<close>

definition round_half :: "real \<Rightarrow> real" where
  "round_half v = of_int \<lfloor>v + 1 / 2\<rfloor>"

definition intonly_option :: "Dict \<Rightarrow> error + bool" where
  "intonly_option params =
     to_bool (dict_get (set_default params ''intonly'' (BOOL False)) ''intonly'')"

definition translational_cur_trans :: "Dict \<Rightarrow> EMData option \<Rightarrow> IntPoint \<Rightarrow> error + Vec3f" where
  "translational_cur_trans params to peak =
     (case peak of (px, py, pz) \<Rightarrow>
        (let cur_trans = (- of_int px, - of_int py, - of_int pz) in
         case to of
           Some t \<Rightarrow> Inr cur_trans
         | None \<Rightarrow>
             (case cur_trans of (x, y, z) \<Rightarrow>
                ebind (intonly_option params) (\<lambda>intonly.
                  if intonly then Inr (round_half (x / 2), round_half (y / 2), round_half (z / 2))
                  else Inr (x / 2, y / 2, z / 2)))))"

text \<open>
  Lines 174 to 186: the moving image is translated by the truncated vector, and the
  transform is attached under the 3D key, under the 2D key, or not at all.
\<close>

definition translate_params :: "Vec3f \<Rightarrow> Dict" where
  "translate_params v =
     (case v of (x, y, z) \<Rightarrow> [''trans'' \<mapsto> INTARRAY [c_trunc x, c_trunc y, c_trunc z]])"

definition translational_result :: "backend \<Rightarrow> EMData \<Rightarrow> Vec3f \<Rightarrow> EMData" where
  "translational_result b this_img cur_trans =
     (let cf = process b ''math.translate.int'' (translate_params cur_trans) this_img in
      if nz this_img \<noteq> 1 then
        get_set_align_attr ''xform.align3d'' cf this_img (set_trans cur_trans)
      else if ny this_img \<noteq> 1 then
        (case cur_trans of (x, y, z) \<Rightarrow>
           get_set_align_attr ''xform.align2d'' cf this_img (set_trans (x, y, 0)))
      else cf)"

text \<open>
  Lines 105 to 157: the correlation map (of the image with itself when there is no
  reference), the bounds, the optional zeroing of the origin, and the peak search.
\<close>

definition translational_peak ::
  "backend \<Rightarrow> Dict \<Rightarrow> EMData \<Rightarrow> EMData option \<Rightarrow> error + IntPoint" where
  "translational_peak b params img to =
     (let cf = calc_ccf b img to in
      ebind (translational_bounds params img) (\<lambda>bounds.
      ebind (to_int (dict_get (set_default params ''maxshift'' (INT_obj (- 1))) ''nozero''))
        (\<lambda>nozero.
           (let cf1 = (if nozero \<noteq> 0 then zero_corner_circulant b 1 cf else cf)
            in case bounds of (sx, sy, sz) \<Rightarrow>
                 Inr (calc_max_location_wrap b cf1 sx sy sz)))))"

text \<open>
  \<^verbatim>\<open>TranslationalAligner::align\<close>, lines 95 to 187. The comparator arguments are
  unnamed in the source and unused.
\<close>

definition TranslationalAligner_align ::
  "backend \<Rightarrow> Dict \<Rightarrow> EMData option \<Rightarrow> EMData option \<Rightarrow> error + EMData option" where
  "TranslationalAligner_align b params this_img to =
     (case this_img of
        None \<Rightarrow> Inr None
      | Some img \<Rightarrow>
          if (case to of None \<Rightarrow> False | Some t \<Rightarrow> \<not> is_same_size img t)
          then Inl ImageDimensionException
          else
            ebind (translational_peak b params img to) (\<lambda>peak.
            ebind (translational_cur_trans params to peak) (\<lambda>cur_trans.
              Inr (Some (translational_result b img cur_trans)))))"

section \<open>RotationalAligner\<close>

text \<open>
  \<^verbatim>\<open>RotationalAligner::align_180_ambiguous\<close>, lines 189 to 233. The footprint mode
  is checked before either image is touched.
\<close>

definition rfp_mode_option :: "Dict \<Rightarrow> error + int" where
  "rfp_mode_option params =
     to_int (dict_get (set_default params ''rfp_mode'' (INT_obj 0)) ''rfp_mode'')"

definition make_footprint :: "backend \<Rightarrow> int \<Rightarrow> EMData \<Rightarrow> EMData" where
  "make_footprint b rfp_mode img =
     (if rfp_mode = 0 then make_rotational_footprint_e1 b img
      else if rfp_mode = 1 then make_rotational_footprint b img
      else make_rotational_footprint_cmc b img)"

definition align_180_ambiguous ::
  "backend \<Rightarrow> EMData option \<Rightarrow> EMData option \<Rightarrow> int \<Rightarrow> error + EMData" where
  "align_180_ambiguous b this_img to rfp_mode =
     (if rfp_mode \<noteq> 0 \<and> rfp_mode \<noteq> 1 \<and> rfp_mode \<noteq> 2
      then Inl (InvalidParameterException ''rfp_mode must be 0,1 or 2'')
      else
        ebind (deref this_img) (\<lambda>img.
        ebind (deref to) (\<lambda>t.
          (let this_img_rfp = make_footprint b rfp_mode img;
               to_rfp = make_footprint b rfp_mode t;
               this_img_rfp_nx = nx this_img_rfp;
               cf = calc_ccfx b this_img_rfp to_rfp 0 (ny img);
               peak_index = snd (find_max b (rdata cf) this_img_rfp_nx);
               rot_angle = of_int peak_index * 180 / of_int this_img_rfp_nx;
               tmp = Transform_2d rot_angle;
               cf2 = process b ''math.transform'' [''transform'' \<mapsto> TRANSFORM (Some tmp)] img
           in Inr (get_set_align_attr ''xform.align2d'' cf2 img (set_rotation rot_angle))))))"

text \<open>
  \<^verbatim>\<open>RotationalAligner::align\<close>, lines 235 to 274. The candidates are the image
  rotated by the footprint angle, its copy rotated by a further 180 degrees, and the
  footprint angle (lines 240 to 249); lines 252 to 273 score both and keep one.
\<close>

definition RotationalAligner_candidates ::
  "backend \<Rightarrow> Dict \<Rightarrow> EMData option \<Rightarrow> EMData \<Rightarrow> error + EMData \<times> EMData \<times> real" where
  "RotationalAligner_candidates b params this_img t =
     ebind (rfp_mode_option params) (\<lambda>rfp_mode.
     ebind (align_180_ambiguous b this_img (Some t) rfp_mode) (\<lambda>rot_aligned.
     ebind (get_attr ''xform.align2d'' rot_aligned) (\<lambda>tmp.
       Inr (rot_aligned, process b ''math.rotate.180'' Map.empty rot_aligned, alpha tmp))))"

definition RotationalAligner_align ::
  "backend \<Rightarrow> Dict \<Rightarrow> EMData option \<Rightarrow> EMData option \<Rightarrow> string \<Rightarrow> Dict \<Rightarrow> error + EMData option" where
  "RotationalAligner_align b params this_img to cmp_name cmp_params =
     (case to of
        None \<Rightarrow>
          Inl (InvalidParameterException
                 ''Can not rotational align - the image to align to is NULL'')
      | Some t \<Rightarrow>
          ebind (RotationalAligner_candidates b params this_img t)
            (\<lambda>(rot_aligned, rot_align_180, rotate_angle_solution).
               (let rot_cmp = cmp b cmp_name cmp_params rot_aligned t;
                    rot_180_cmp = cmp b cmp_name cmp_params rot_align_180 t
                in if rot_cmp < rot_180_cmp
                   then Inr (Some (get_align_attr ''xform.align2d'' rot_aligned
                                     (set_rotation rotate_angle_solution)))
                   else Inr (Some (get_align_attr ''xform.align2d'' rot_align_180
                                     (set_rotation (rotate_angle_solution - 180)))))))"

section \<open>RotatePrecenterAligner\<close>

text \<open>
  \<^verbatim>\<open>RotatePrecenterAligner::align\<close>, lines 277 to 315. The moving image is
  transformed in place; what the function returns is \<open>cf\<close>, the row-wise correlation
  of the two unwrapped images, with the transform attached.
\<close>

definition RotatePrecenterAligner_align ::
  "backend \<Rightarrow> EMData option \<Rightarrow> EMData option \<Rightarrow> error + EMData option" where
  "RotatePrecenterAligner_align b this_img to =
     (case to of
        None \<Rightarrow> Inr None
      | Some t \<Rightarrow>
          ebind (deref this_img) (\<lambda>img.
            (let size = calc_best_fft_size b (c_trunc (pi * of_int (ny img) * 1.5));
                 e1 = unwrap b 4 (c_div (ny img * 7) 16) size 0 0 True img;
                 e2 = unwrap b 4 (c_div (ny img * 7) 16) size 0 0 True t;
                 cf = calc_ccfx b e1 e2 0 (ny img);
                 peak_index = snd (find_max b (rdata cf) size);
                 a = (1 - 1 * of_int peak_index / of_int size) * 180 * 2;
                 img' = transform b (Transform_2d (a * 180 / pi)) img
             in Inr (Some (get_set_align_attr ''xform.align2d'' cf img' (set_rotation (- a)))))))"

section \<open>RotateTranslateAligner\<close>

text \<open>
  \<^verbatim>\<open>RotateTranslateAligner::align\<close>, lines 317 to 374. Lines 320 to 347 build the
  two candidates: each rotation candidate is shifted by the translational aligner.
  \<^verbatim>\<open>img->align(name, to, params, ...)\<close> looks the aligner up by name, hands it the
  parameters and calls it (for an empty comparator name the dispatcher lets the
  aligner pick its default comparator; comparator names are opaque here).
\<close>

definition RotateTranslateAligner_candidates ::
  "backend \<Rightarrow> Dict \<Rightarrow> EMData option \<Rightarrow> EMData option \<Rightarrow> error + EMData \<times> EMData \<times> real" where
  "RotateTranslateAligner_candidates b params this_img to =
     ebind (rfp_mode_option params) (\<lambda>rfp_mode.
     ebind (align_180_ambiguous b this_img to rfp_mode) (\<lambda>rot_align.
     ebind (get_attr ''xform.align2d'' rot_align) (\<lambda>tmp.
       (let rot_align_180 = process b ''math.rotate.180'' Map.empty rot_align in
        ebind (to_int (dict_get (set_default params ''maxshift'' (INT_obj (- 1))) ''maxshift''))
          (\<lambda>maxshift.
        ebind (to_bool (dict_get (set_default params ''nozero'' (BOOL False)) ''nozero''))
          (\<lambda>nozero.
           (let trans_params = [''intonly'' \<mapsto> INT_obj 0, ''maxshift'' \<mapsto> INT_obj maxshift,
                                ''nozero'' \<mapsto> BOOL nozero] in
            ebind (TranslationalAligner_align b trans_params (Some rot_align) to)
              (\<lambda>rot_trans.
            ebind (TranslationalAligner_align b trans_params (Some rot_align_180) to)
              (\<lambda>rot_180_trans.
            ebind (deref rot_trans) (\<lambda>c1.
            ebind (deref rot_180_trans) (\<lambda>c2.
              Inr (c1, c2, alpha tmp))))))))))))"

definition RotateTranslateAligner_align ::
  "backend \<Rightarrow> Dict \<Rightarrow> EMData option \<Rightarrow> EMData option \<Rightarrow> string \<Rightarrow> Dict \<Rightarrow> error + EMData option" where
  "RotateTranslateAligner_align b params this_img to cmp_name cmp_params =
     ebind (RotateTranslateAligner_candidates b params this_img to)
       (\<lambda>(rot_trans, rot_180_trans, rotate_angle_solution).
     ebind (deref to) (\<lambda>t.
       (let cmp1 = cmp b cmp_name cmp_params rot_trans t;
            cmp2 = cmp b cmp_name cmp_params rot_180_trans t
        in if cmp1 < cmp2
           then ebind (update_attr ''xform.align2d'' (set_rotation rotate_angle_solution)
                         rot_trans) (\<lambda>r. Inr (Some r))
           else ebind (update_attr ''xform.align2d''
                         (set_rotation (rotate_angle_solution - 180)) rot_180_trans)
                  (\<lambda>r. Inr (Some r)))))"

section \<open>RotateTranslateFlipAligner\<close>

text \<open>
  \<^verbatim>\<open>RotateTranslateFlipAligner::align\<close>, lines 379 to 426. Lines 382 to 396 align
  against the reference and against the mirrored reference (the \<^verbatim>\<open>flip\<close> option, or
  the reference flipped about x) and set the mirror flag of the second result. The
  candidates come with the mirrored reference, which scores the second one.
\<close>

definition flip_x :: "backend \<Rightarrow> EMData \<Rightarrow> EMData" where
  "flip_x b img = process b ''xform.flip'' [''axis'' \<mapsto> STRING ''x''] img"

definition RotateTranslateFlipAligner_candidates ::
  "backend \<Rightarrow> Dict \<Rightarrow> EMData option \<Rightarrow> EMData option \<Rightarrow> string \<Rightarrow> Dict
     \<Rightarrow> error + EMData \<times> EMData \<times> EMData \<times> EMData" where
  "RotateTranslateFlipAligner_candidates b params this_img to cmp_name cmp_params =
     ebind (rfp_mode_option params) (\<lambda>rfp_mode.
       (let rt_params = [''maxshift'' \<mapsto> dict_get params ''maxshift'',
                         ''rfp_mode'' \<mapsto> INT_obj rfp_mode] in
        ebind (deref this_img) (\<lambda>img.
        ebind (RotateTranslateAligner_align b rt_params (Some img) to cmp_name cmp_params)
          (\<lambda>rot_trans_align.
        ebind (to_EMData (dict_get (set_default params ''flip'' (EMDATA None)) ''flip''))
          (\<lambda>flip.
        ebind (case flip of Some f \<Rightarrow> Inr f
               | None \<Rightarrow> ebind (deref to) (\<lambda>t. Inr (flip_x b t))) (\<lambda>flipped.
        ebind (RotateTranslateAligner_align b rt_params (Some img) (Some flipped)
                 cmp_name cmp_params) (\<lambda>rot_trans_align_flip.
        ebind (deref rot_trans_align_flip) (\<lambda>c2.
        ebind (deref rot_trans_align) (\<lambda>c1.
        ebind (deref to) (\<lambda>t.
          Inr (c1, get_align_attr ''xform.align2d'' c2 (set_mirror True), t, flipped)))))))))))"

definition RotateTranslateFlipAligner_align ::
  "backend \<Rightarrow> Dict \<Rightarrow> EMData option \<Rightarrow> EMData option \<Rightarrow> string \<Rightarrow> Dict \<Rightarrow> error + EMData option" where
  "RotateTranslateFlipAligner_align b params this_img to cmp_name cmp_params =
     ebind (RotateTranslateFlipAligner_candidates b params this_img to cmp_name cmp_params)
       (\<lambda>(rot_trans_align, rot_trans_align_flip, t, flipped).
          (let cmp1 = cmp b cmp_name cmp_params rot_trans_align t;
               cmp2 = cmp b cmp_name cmp_params rot_trans_align_flip flipped
           in if cmp1 < cmp2 then Inr (Some rot_trans_align)
              else Inr (Some (flip_x b rot_trans_align_flip))))"

section \<open>RotateFlipAligner\<close>

text \<open>
  \<^verbatim>\<open>RotateFlipAligner::align\<close>, lines 431 to 470: as above with the rotational
  aligner, and the reference is always flipped here.
\<close>

definition RotateFlipAligner_candidates ::
  "backend \<Rightarrow> Dict \<Rightarrow> EMData option \<Rightarrow> EMData option \<Rightarrow> string \<Rightarrow> Dict
     \<Rightarrow> error + EMData \<times> EMData \<times> EMData \<times> EMData" where
  "RotateFlipAligner_candidates b params this_img to cmp_name cmp_params =
     ebind (rfp_mode_option params) (\<lambda>rfp_mode.
       (let rot_params = [''rfp_mode'' \<mapsto> INT_obj rfp_mode] in
        ebind (deref this_img) (\<lambda>img.
        ebind (RotationalAligner_align b rot_params (Some img) to cmp_name cmp_params) (\<lambda>r1.
        ebind (deref to) (\<lambda>t.
          (let flipped = flip_x b t in
           ebind (RotationalAligner_align b rot_params (Some img) (Some flipped)
                    cmp_name cmp_params) (\<lambda>r2.
           ebind (deref r2) (\<lambda>c2.
           ebind (deref r1) (\<lambda>c1.
             Inr (c1, get_align_attr ''xform.align2d'' c2 (set_mirror True), t, flipped))))))))))"

definition RotateFlipAligner_align ::
  "backend \<Rightarrow> Dict \<Rightarrow> EMData option \<Rightarrow> EMData option \<Rightarrow> string \<Rightarrow> Dict \<Rightarrow> error + EMData option" where
  "RotateFlipAligner_align b params this_img to cmp_name cmp_params =
     ebind (RotateFlipAligner_candidates b params this_img to cmp_name cmp_params)
       (\<lambda>(r1, r2, t, flipped).
          (let cmp1 = cmp b cmp_name cmp_params r1 t;
               cmp2 = cmp b cmp_name cmp_params r2 flipped
           in if cmp1 < cmp2 then Inr (Some r1)
              else Inr (Some (flip_x b r2))))"

section \<open>RTFSlowExhaustiveAligner\<close>

text \<open>
  Modelled from the spec: the factors \<^verbatim>\<open>EMConsts::deg2rad\<close> and
  \<^verbatim>\<open>EMConsts::rad2deg\<close> between the degrees of the options and of a Transform and
  the radians of the search (their definition is not among the sources), as the
  \<^verbatim>\<open>double\<close> quotients of \<^verbatim>\<open>M_PI\<close> and 180. The step checks below only need
  that \<^verbatim>\<open>deg2rad\<close> is not negative.

  \<^verbatim>\<open>FLT_MAX\<close>, \<^verbatim>\<open>hypot\<close> and \<^verbatim>\<open>atan2\<close> are those of the C library, the two
  functions taken as correctly rounded: \<^verbatim>\<open>hypot\<close> is called in double precision,
  and the value of \<^verbatim>\<open>atan2\<close> is rounded where the source stores it in a
  \<^verbatim>\<open>float\<close>.
\<close>

definition FLT_MAX :: real where
  "FLT_MAX = 340282346638528859811704183484516925440"

definition deg2rad :: real where
  "deg2rad = double_round (M_PI / 180)"

definition rad2deg :: real where
  "rad2deg = double_round (180 / M_PI)"

definition hypot :: "real \<Rightarrow> real \<Rightarrow> real" where
  "hypot x y = double_round (sqrt (x * x + y * y))"

definition atan2 :: "real \<Rightarrow> real \<Rightarrow> real" where
  "atan2 y x =
     (if 0 < x then arctan (y / x)
      else if x < 0 then (if 0 \<le> y then arctan (y / x) + pi else arctan (y / x) - pi)
      else if 0 < y then pi / 2
      else if y < 0 then - (pi / 2)
      else 0)"

text \<open>
  A \<^verbatim>\<open>for (v = lo; v <= hi; v += step)\<close> loop over a state; \<open>incr\<close> is the counter
  after \<^verbatim>\<open>v += step\<close>, which for a \<^verbatim>\<open>float\<close> counter is the rounded sum. Nothing in
  the loop itself makes it end (a step that is not positive, or one that is lost in
  the rounding of the sum, never reaches the bound), so it is a partial function:
  \<open>None\<close> is a loop that does not return.
\<close>

partial_function (option) for_loop ::
  "'a::ord \<Rightarrow> 'a \<Rightarrow> ('a \<Rightarrow> 'a) \<Rightarrow> ('a \<Rightarrow> 's \<Rightarrow> 's option) \<Rightarrow> 's \<Rightarrow> 's option" where
  "for_loop v hi incr body s =
     (if v \<le> hi then Option.bind (body v s) (for_loop (incr v) hi incr body)
      else Some s)"

text \<open>
  The best candidate so far (lines 788 to 793) and the two comparisons of one
  candidate, against the reference and against the mirrored reference (lines 802 to
  825 and 859 to 883).
\<close>

record best =
  bestflip :: int
  bestdx :: real
  bestdy :: real
  bestang :: real
  bestval :: real

definition keep_lower :: "real \<Rightarrow> int \<Rightarrow> real \<Rightarrow> real \<Rightarrow> real \<Rightarrow> best \<Rightarrow> best" where
  "keep_lower lc fl dx dy ang bst =
     (if lc < bestval bst
      then \<lparr>bestflip = fl, bestdx = dx, bestdy = dy, bestang = ang, bestval = lc\<rparr>
      else bst)"

definition score_candidate ::
  "backend \<Rightarrow> string \<Rightarrow> Dict \<Rightarrow> EMData \<Rightarrow> EMData \<Rightarrow> EMData \<Rightarrow> real \<Rightarrow> real \<Rightarrow> real
     \<Rightarrow> best \<Rightarrow> best" where
  "score_candidate b cmp_name cmp_params img ref flipped_ref dx dy ang bst =
     (let t = set_trans (dx, dy, 0) (Transform_2d (float_round (double_round (ang * rad2deg))));
          v = transform b t img;
          bst1 = keep_lower (cmp b cmp_name cmp_params v ref) 0 dx dy ang bst
      in keep_lower (cmp b cmp_name cmp_params v flipped_ref) 1 dx dy ang bst1)"

text \<open>Lines 795 to 829: the coarse search on the images shrunk by two.\<close>

definition slow_stage1 ::
  "backend \<Rightarrow> string \<Rightarrow> Dict \<Rightarrow> EMData \<Rightarrow> EMData \<Rightarrow> EMData \<Rightarrow> int \<Rightarrow> real \<Rightarrow> best option" where
  "slow_stage1 b cmp_name cmp_params this_img_shrink to_shrunk flipped_shrunk maxshift angle_step =
     (let half_maxshift = c_div maxshift 2 in
      for_loop (- half_maxshift) half_maxshift (\<lambda>dy. dy + 1)
        (\<lambda>dy. for_loop (int_to_float (- half_maxshift)) (int_to_float half_maxshift)
                 (\<lambda>dx. float_round (dx + 1))
           (\<lambda>dx bst.
              if hypot dx (of_int dy) \<le> of_int maxshift
              then for_loop (float_round (- angle_step * 2)) (2 * M_PI)
                     (\<lambda>ang. float_round (ang + float_round (angle_step * 4)))
                     (\<lambda>ang bst'. Some (score_candidate b cmp_name cmp_params this_img_shrink
                                          to_shrunk flipped_shrunk dx (int_to_float dy) ang bst'))
                     bst
              else Some bst))
        \<lparr>bestflip = 0, bestdx = 0, bestdy = 0, bestang = 0, bestval = FLT_MAX\<rparr>)"

text \<open>Lines 847 to 887: the fine search at full size around the coarse winner.\<close>

definition slow_stage2 ::
  "backend \<Rightarrow> string \<Rightarrow> Dict \<Rightarrow> EMData \<Rightarrow> EMData \<Rightarrow> EMData \<Rightarrow> int \<Rightarrow> real \<Rightarrow> real
     \<Rightarrow> best \<Rightarrow> best option" where
  "slow_stage2 b cmp_name cmp_params this_img t flipped maxshift angle_step trans_step bst1 =
     (let bestdx2 = float_round (bestdx bst1 * 2);
          bestdy2 = float_round (bestdy bst1 * 2);
          bestang2 = bestang bst1
      in for_loop (float_round (bestdy2 - 3)) (float_round (bestdy2 + 3))
           (\<lambda>dy. float_round (dy + trans_step))
           (\<lambda>dy. for_loop (float_round (bestdx2 - 3)) (float_round (bestdx2 + 3))
                    (\<lambda>dx. float_round (dx + trans_step))
              (\<lambda>dx bst.
                 if hypot dx dy \<le> of_int maxshift
                 then for_loop (float_round (bestang2 - float_round (angle_step * 6)))
                        (float_round (bestang2 + float_round (angle_step * 6)))
                        (\<lambda>ang. float_round (ang + angle_step))
                        (\<lambda>ang bst'. Some (score_candidate b cmp_name cmp_params this_img
                                             t flipped dx dy ang bst'))
                        bst
                 else Some bst))
           (bst1\<lparr>bestdx := bestdx2, bestdy := bestdy2, bestval := FLT_MAX\<rparr>))"

text \<open>
  Lines 751 to 780: the options, the copy of the moving image, the mirrored
  reference, and then the two checks of the steps.
\<close>

definition flip_option :: "Dict \<Rightarrow> error + EMData option" where
  "flip_option params = to_EMData (dict_get (set_default params ''flip'' (EMDATA None)) ''flip'')"

definition maxshift_option :: "Dict \<Rightarrow> error + int" where
  "maxshift_option params =
     to_int (dict_get (set_default params ''maxshift'' (INT_obj (- 1))) ''maxshift'')"

definition angstep_option :: "Dict \<Rightarrow> error + real" where
  "angstep_option params =
     to_float (dict_get (set_default params ''angstep'' (FLOAT 0)) ''angstep'')"

definition transtep_option :: "Dict \<Rightarrow> error + real" where
  "transtep_option params =
     to_float (dict_get (set_default params ''transtep'' (FLOAT 1)) ''transtep'')"

record slow_setup =
  moving_copy :: EMData
  mirrored_ref :: EMData
  max_shift :: int
  ang_step :: real
  tr_step :: real

definition RTFSlowExhaustiveAligner_setup ::
  "backend \<Rightarrow> Dict \<Rightarrow> EMData option \<Rightarrow> EMData option \<Rightarrow> error + slow_setup" where
  "RTFSlowExhaustiveAligner_setup b params this_img to =
     ebind (flip_option params) (\<lambda>flip.
     ebind (maxshift_option params) (\<lambda>maxshift0.
     ebind (deref this_img) (\<lambda>this_img_copy.
     ebind (case flip of Some f \<Rightarrow> Inr f
            | None \<Rightarrow> ebind (deref to) (\<lambda>t. Inr (flip_x b t))) (\<lambda>flipped.
       (let maxshift = (if maxshift0 < 0 then c_div (nx this_img_copy) 10 else maxshift0) in
        ebind (angstep_option params) (\<lambda>angstep.
          (let angle_step =
                 (if angstep = 0 then float_round (atan2 2 (int_to_float (nx this_img_copy)))
                  else float_round (angstep * float_round deg2rad)) in
           ebind (transtep_option params) (\<lambda>trans_step.
             if trans_step \<le> 0
             then Inl (InvalidParameterException ''transstep must be greater than 0'')
             else if angle_step \<le> 0
             then Inl (InvalidParameterException ''angstep must be greater than 0'')
             else Inr \<lparr>moving_copy = this_img_copy, mirrored_ref = flipped,
                        max_shift = maxshift, ang_step = angle_step,
                        tr_step = trans_step\<rparr>))))))))"

text \<open>
  \<^verbatim>\<open>RTFSlowExhaustiveAligner::align\<close>, lines 747 to 903. The outer \<open>None\<close> is a
  search that does not return.
\<close>

definition slow_result :: "backend \<Rightarrow> EMData \<Rightarrow> best \<Rightarrow> EMData" where
  "slow_result b this_img_copy bst =
     (let t0 = set_trans (bestdx bst, bestdy bst, 0)
                 (Transform_2d (float_round (bestang bst * float_round rad2deg)));
          t = (if bestflip bst \<noteq> 0 then set_mirror True t0 else t0)
      in transform b t (set_attr ''xform.align2d'' t this_img_copy))"

definition shrink2 :: "backend \<Rightarrow> EMData \<Rightarrow> EMData" where
  "shrink2 b img = process b ''math.medianshrink'' [''n'' \<mapsto> INT_obj 2] img"

definition RTFSlowExhaustiveAligner_align ::
  "backend \<Rightarrow> Dict \<Rightarrow> EMData option \<Rightarrow> EMData option \<Rightarrow> string \<Rightarrow> Dict
     \<Rightarrow> (error + EMData option) option" where
  "RTFSlowExhaustiveAligner_align b params this_img to cmp_name cmp_params =
     (case RTFSlowExhaustiveAligner_setup b params this_img to of
        Inl e \<Rightarrow> Some (Inl e)
      | Inr cfg \<Rightarrow>
          (case to of
             None \<Rightarrow> Some (Inl NullPointerDereference)
           | Some t \<Rightarrow>
               Option.bind
                 (slow_stage1 b cmp_name cmp_params (shrink2 b (moving_copy cfg)) (shrink2 b t)
                    (shrink2 b (mirrored_ref cfg)) (max_shift cfg) (ang_step cfg))
                 (\<lambda>bst1.
               Option.bind
                 (slow_stage2 b cmp_name cmp_params (moving_copy cfg) t (mirrored_ref cfg)
                    (max_shift cfg) (ang_step cfg) (tr_step cfg) bst1)
                 (\<lambda>bst2. Some (Inr (Some (slow_result b (moving_copy cfg) bst2)))))))"

section \<open>RTFExhaustiveAligner\<close>

text \<open>
  \<^verbatim>\<open>RTFExhaustiveAligner::align\<close>, lines 487 to 744. Every candidate shift unwraps
  the moving image around the shifted centre, finds the rotation as the peak of one
  row-wise correlation with the unwrapped reference, rotates the unwrapped image by
  it and scores it (lines 558 to 570 and their three repetitions). \<open>(ux, uy)\<close> is the
  shift as \<^verbatim>\<open>unwrap\<close> receives it (an \<^verbatim>\<open>int\<close>), \<open>(dx, dy)\<close> as it is recorded.
  The row range of \<^verbatim>\<open>calc_ccfx\<close> is left to its defaults there, 0 and -1.
\<close>

definition unwrap_candidate ::
  "backend \<Rightarrow> string \<Rightarrow> Dict \<Rightarrow> EMData \<Rightarrow> int \<Rightarrow> int \<Rightarrow> EMData \<Rightarrow> int \<Rightarrow> int \<times> int
     \<Rightarrow> real \<times> real \<Rightarrow> best \<Rightarrow> best" where
  "unwrap_candidate b cmp_name cmp_params src r2 xs ref_unwrapped fl u d bst =
     (case (u, d) of ((ux, uy), (dx, dy)) \<Rightarrow>
        (let uw = unwrap b 4 r2 xs ux uy True src;
             a = calc_ccfx b uw ref_unwrapped 0 (- 1);
             uwc = rotate_x b (calc_max_index b a) uw;
             cm = cmp b cmp_name cmp_params uwc ref_unwrapped
         in if cm < bestval bst
            then \<lparr>bestflip = fl, bestdx = dx, bestdy = dy,
                  bestang =
                    float_round (double_round
                      (double_round (2 * M_PI * of_int (calc_max_index b a)) / of_int (nx a))),
                  bestval = cm\<rparr>
            else bst))"

record fast_setup =
  fast_maxshift :: int
  fast_xst :: int
  fast_to_shrunk_unwrapped :: EMData
  fast_to_unwrapped :: EMData
  fast_to_shrunk_flipped_unwrapped :: EMData
  fast_to_flip_unwrapped :: EMData
  fast_this_shrunk_2 :: EMData

text \<open>
  Lines 490 to 540: the options, the check of \<^verbatim>\<open>maxshift\<close>, and the unwrapped
  references at half and at full size. The default of \<^verbatim>\<open>maxshift\<close> reads the width
  of the moving image, and the first use of the reference is at line 499.
\<close>

definition RTFExhaustiveAligner_setup ::
  "backend \<Rightarrow> Dict \<Rightarrow> EMData option \<Rightarrow> EMData option \<Rightarrow> error + fast_setup" where
  "RTFExhaustiveAligner_setup b params this_img to =
     ebind (flip_option params) (\<lambda>flip.
     ebind (deref this_img) (\<lambda>img.
     ebind (to_int (dict_get (set_default params ''maxshift'' (INT_obj (c_div (nx img) 8)))
                      ''maxshift'')) (\<lambda>maxshift.
       if maxshift < 2
       then Inl (InvalidParameterException ''maxshift must be greater than or equal to 2'')
       else
         (let xst = calc_best_fft_size b
                      (int_cast (of_int \<lfloor>double_round (2 * M_PI * of_int (ny img))\<rfloor>)) in
          ebind (deref to) (\<lambda>t.
            (let to_shrunk = shrink2 b t;
                 to_copy_r2 = c_div (ny to_shrunk) 2 - 2 - c_div maxshift 2;
                 to_shrunk_unwrapped = unwrap b 4 to_copy_r2 (c_div xst 2) 0 0 True to_shrunk;
                 to_unwrapped = unwrap b 4 (c_div (ny t) 2 - 2 - maxshift) xst 0 0 True t;
                 flipped = (case flip of Some f \<Rightarrow> f | None \<Rightarrow> flip_x b t);
                 to_shrunk_flipped_unwrapped =
                   unwrap b 4 to_copy_r2 (c_div xst 2) 0 0 True (shrink2 b flipped);
                 to_flip_unwrapped =
                   unwrap b 4 (c_div (ny t) 2 - 2 - maxshift) xst 0 0 True flipped
             in Inr \<lparr>fast_maxshift = maxshift, fast_xst = xst,
                     fast_to_shrunk_unwrapped = to_shrunk_unwrapped,
                     fast_to_unwrapped = to_unwrapped,
                     fast_to_shrunk_flipped_unwrapped = to_shrunk_flipped_unwrapped,
                     fast_to_flip_unwrapped = to_flip_unwrapped,
                     fast_this_shrunk_2 = shrink2 b img\<rparr>))))))"

text \<open>Lines 542 to 620: the coarse search, on a disk of radius \<^verbatim>\<open>maxshift / 2\<close>.\<close>

definition fast_stage1 :: "backend \<Rightarrow> string \<Rightarrow> Dict \<Rightarrow> fast_setup \<Rightarrow> best option" where
  "fast_stage1 b cmp_name cmp_params cfg =
     (let half_maxshift = c_div (fast_maxshift cfg) 2;
          ur2 = c_div (ny (fast_this_shrunk_2 cfg)) 2 - 2 - half_maxshift;
          xs = c_div (fast_xst cfg) 2
      in for_loop (- half_maxshift) half_maxshift (\<lambda>dy. dy + 1)
           (\<lambda>dy. for_loop (- half_maxshift) half_maxshift (\<lambda>dx. dx + 1)
              (\<lambda>dx bst.
                 if hypot (of_int dx) (of_int dy) \<le> of_int half_maxshift
                 then Some
                   (unwrap_candidate b cmp_name cmp_params (fast_this_shrunk_2 cfg) ur2 xs
                      (fast_to_shrunk_flipped_unwrapped cfg) 1 (dx, dy)
                      (int_to_float dx, int_to_float dy)
                      (unwrap_candidate b cmp_name cmp_params (fast_this_shrunk_2 cfg) ur2 xs
                         (fast_to_shrunk_unwrapped cfg) 0 (dx, dy)
                         (int_to_float dx, int_to_float dy) bst))
                 else Some bst))
           \<lparr>bestflip = 0, bestdx = 0, bestdy = 0, bestang = 0, bestval = FLT_MAX\<rparr>)"

text \<open>
  Lines 646 to 725: the fine search at full size, three samples either way around
  twice the coarse shift.
\<close>

definition fast_stage2 ::
  "backend \<Rightarrow> string \<Rightarrow> Dict \<Rightarrow> EMData \<Rightarrow> fast_setup \<Rightarrow> best \<Rightarrow> best option" where
  "fast_stage2 b cmp_name cmp_params this_img cfg bst1 =
     (let bestdx2 = float_round (bestdx bst1 * 2);
          bestdy2 = float_round (bestdy bst1 * 2);
          r2 = c_div (ny this_img) 2 - 2 - fast_maxshift cfg
      in for_loop (float_round (bestdy2 - 3)) (float_round (bestdy2 + 3))
           (\<lambda>dy. float_round (double_round (dy + 1)))
           (\<lambda>dy. for_loop (float_round (bestdx2 - 3)) (float_round (bestdx2 + 3))
                    (\<lambda>dx. float_round (double_round (dx + 1)))
              (\<lambda>dx bst.
                 if hypot dx dy \<le> of_int (fast_maxshift cfg)
                 then Some
                   (unwrap_candidate b cmp_name cmp_params this_img r2 (fast_xst cfg)
                      (fast_to_flip_unwrapped cfg) 1 (int_cast dx, int_cast dy) (dx, dy)
                      (unwrap_candidate b cmp_name cmp_params this_img r2 (fast_xst cfg)
                         (fast_to_unwrapped cfg) 0 (int_cast dx, int_cast dy) (dx, dy) bst))
                 else Some bst))
           (bst1\<lparr>bestdx := bestdx2, bestdy := bestdy2, bestval := FLT_MAX\<rparr>))"

text \<open>Lines 732 to 743: the transform of the winner, applied to a copy.\<close>

definition fast_result :: "backend \<Rightarrow> EMData \<Rightarrow> best \<Rightarrow> EMData" where
  "fast_result b this_img bst =
     (let t0 = set_pre_trans b (- bestdx bst, - bestdy bst)
                 (Transform_2d (float_round (bestang bst * float_round rad2deg)));
          t = (if bestflip bst \<noteq> 0 then set_mirror True t0 else t0)
      in set_attr ''xform.align2d'' t (transform b t this_img))"

definition RTFExhaustiveAligner_align ::
  "backend \<Rightarrow> Dict \<Rightarrow> EMData option \<Rightarrow> EMData option \<Rightarrow> string \<Rightarrow> Dict
     \<Rightarrow> (error + EMData option) option" where
  "RTFExhaustiveAligner_align b params this_img to cmp_name cmp_params =
     (case RTFExhaustiveAligner_setup b params this_img to of
        Inl e \<Rightarrow> Some (Inl e)
      | Inr cfg \<Rightarrow>
          (case this_img of
             None \<Rightarrow> Some (Inl NullPointerDereference)
           | Some img \<Rightarrow>
               Option.bind (fast_stage1 b cmp_name cmp_params cfg) (\<lambda>bst1.
               Option.bind (fast_stage2 b cmp_name cmp_params img cfg bst1) (\<lambda>bst2.
                 Some (Inr (Some (fast_result b img bst2)))))))"

text \<open>
  A call fails when it ends in an exception or in a call through a null pointer.
\<close>

definition fails :: "(error + EMData option) option \<Rightarrow> bool" where
  "fails r = (case r of Some (Inl e) \<Rightarrow> True | _ \<Rightarrow> False)"

section \<open>RefineAligner\<close>

text \<open>
  The simplex minimizer is the GSL's (\<^verbatim>\<open>gsl_multimin_fminimizer_nmsimplex\<close>), a
  library outside the repository: the aligner takes it as a parameter, over any type
  of minimizer states. \<open>fminimizer_iterate\<close> returns the status and the new state;
  \<open>fminimizer_x\<close> is the minimizer's current best point. \<open>gsl_multimin_test_size\<close>
  is the GSL's test as its manual gives it.
\<close>

record 's minimizer =
  fminimizer_set :: "(Vec3f \<Rightarrow> real) \<Rightarrow> Vec3f \<Rightarrow> Vec3f \<Rightarrow> 's"
  fminimizer_iterate :: "(Vec3f \<Rightarrow> real) \<Rightarrow> 's \<Rightarrow> int \<times> 's"
  fminimizer_size :: "'s \<Rightarrow> real"
  fminimizer_x :: "'s \<Rightarrow> Vec3f"

definition GSL_SUCCESS :: int where
  "GSL_SUCCESS = 0"

definition GSL_CONTINUE :: int where
  "GSL_CONTINUE = - 2"

definition GSL_EBADTOL :: int where
  "GSL_EBADTOL = 13"

definition gsl_multimin_test_size :: "real \<Rightarrow> real \<Rightarrow> int" where
  "gsl_multimin_test_size sz epsabs =
     (if epsabs < 0 then GSL_EBADTOL
      else if sz < epsabs then GSL_SUCCESS
      else GSL_CONTINUE)"

text \<open>The two objective functions, lines 907 to 979.\<close>

definition refalifn ::
  "backend \<Rightarrow> string \<Rightarrow> Dict \<Rightarrow> EMData \<Rightarrow> EMData \<Rightarrow> bool \<Rightarrow> Vec3f \<Rightarrow> real" where
  "refalifn b cmp_name cmp_params this_img with_img mirr v =
     (case v of (x, y, a) \<Rightarrow>
        (let t = set_mirror mirr (set_trans (x, y, 0) (Transform_2d a));
             tmp = transform b t this_img
         in cmp b cmp_name cmp_params tmp with_img))"

definition refalifnfast :: "backend \<Rightarrow> EMData \<Rightarrow> EMData \<Rightarrow> bool \<Rightarrow> Vec3f \<Rightarrow> real" where
  "refalifnfast b this_img img_to mirr v =
     (case v of (x, y, a) \<Rightarrow>
        (let r = dot_rotate_translate b this_img img_to x y a mirr;
             nsec = nx this_img * ny this_img
         in 1 - r / of_int nsec))"

text \<open>
  Lines 1050 to 1063: the minimization loop on the state \<open>(rval, iter, s)\<close>. The loop
  is entered with \<open>rval = GSL_CONTINUE\<close> and \<open>iter = 1\<close>.
\<close>

function refine_loop ::
  "'s minimizer \<Rightarrow> (Vec3f \<Rightarrow> real) \<Rightarrow> real \<Rightarrow> int \<Rightarrow> int \<times> int \<times> 's \<Rightarrow> int \<times> int \<times> 's" where
  "refine_loop g f precision maxiter (rval, iter, s) =
     (if rval = GSL_CONTINUE \<and> iter < maxiter
      then (case fminimizer_iterate g f s of
              (status, s') \<Rightarrow>
                if status \<noteq> 0 then (rval, iter + 1, s')
                else refine_loop g f precision maxiter
                       (gsl_multimin_test_size (fminimizer_size g s') precision, iter + 1, s'))
      else (rval, iter, s))"
  by pat_completeness auto
termination
  by (relation "measure (\<lambda>(g, f, precision, maxiter, rval, iter, s). nat (maxiter - iter))") auto

declare refine_loop.simps [simp del]

text \<open>\<^verbatim>\<open>RefineAligner::align\<close>, lines 982 to 1078.\<close>

definition float_option :: "Dict \<Rightarrow> string \<Rightarrow> real \<Rightarrow> error + real" where
  "float_option params key dflt = to_float (dict_get (set_default params key (FLOAT dflt)) key)"

definition int_option :: "Dict \<Rightarrow> string \<Rightarrow> int \<Rightarrow> error + int" where
  "int_option params key dflt = to_int (dict_get (set_default params key (INT_obj dflt)) key)"

definition seed_option :: "Dict \<Rightarrow> error + Transform option" where
  "seed_option params =
     to_Transform (dict_get (set_default params ''xform.align2d'' (TRANSFORM None))
                     ''xform.align2d'')"

definition refine_solution ::
  "'s minimizer \<Rightarrow> backend \<Rightarrow> string \<Rightarrow> Dict \<Rightarrow> EMData \<Rightarrow> EMData \<Rightarrow> int \<Rightarrow> Transform option
     \<Rightarrow> Vec3f \<Rightarrow> real \<Rightarrow> int \<Rightarrow> EMData" where
  "refine_solution g b cmp_name cmp_params img t mode seed steps precision maxiter =
     (let (saz, sdx, sdy, mirr) =
            (case seed of None \<Rightarrow> (0, 0, 0, False)
             | Some t0 \<Rightarrow> (alpha t0, tx t0, ty t0, mirror t0));
          f = (if mode = 2 then refalifnfast b img t mirr
               else refalifn b cmp_name cmp_params img t mirr);
          s0 = fminimizer_set g f (sdx, sdy, saz) steps;
          (rval, iter, s) = refine_loop g f precision maxiter (GSL_CONTINUE, 1, s0);
          (x0, x1, x2) = fminimizer_x g s;
          tsoln = set_trans (x0, x1, 0) (set_mirror mirr (Transform_2d x2))
      in transform b tsoln (set_attr ''xform.align2d'' tsoln img))"

definition RefineAligner_align ::
  "'s minimizer \<Rightarrow> backend \<Rightarrow> Dict \<Rightarrow> EMData option \<Rightarrow> EMData option \<Rightarrow> string \<Rightarrow> Dict
     \<Rightarrow> error + EMData option" where
  "RefineAligner_align g b params this_img to cmp_name cmp_params =
     (case to of
        None \<Rightarrow> Inr None
      | Some t \<Rightarrow>
          ebind (deref this_img) (\<lambda>img.
          ebind (int_option params ''mode'' 0) (\<lambda>mode.
          ebind (seed_option params) (\<lambda>seed.
          ebind (float_option params ''stepx'' 1) (\<lambda>stepx.
          ebind (float_option params ''stepy'' 1) (\<lambda>stepy.
          ebind (float_option params ''stepaz'' 5) (\<lambda>stepaz.
          ebind (float_option params ''precision'' 0.04) (\<lambda>precision.
          ebind (int_option params ''maxiter'' 28) (\<lambda>maxiter.
            Inr (Some (refine_solution g b cmp_name cmp_params img t mode seed
                         (stepx, stepy, stepaz) precision maxiter)))))))))))"

text \<open>
  A minimizer for evaluating the loop: its state counts the iterations performed and
  holds the current point; every iteration succeeds and turns the angle by one
  degree, and the simplex size stays at 1.
\<close>

definition test_minimizer :: "(nat \<times> Vec3f) minimizer" where
  "test_minimizer =
     \<lparr>fminimizer_set = (\<lambda>f x ss. (0, x)),
      fminimizer_iterate = (\<lambda>f s. case s of (n, x, y, a) \<Rightarrow> (0, (Suc n, x, y, a + 1))),
      fminimizer_size = (\<lambda>s. 1),
      fminimizer_x = (\<lambda>s. snd s)\<rparr>"

section \<open>A small image library for evaluating the aligners\<close>

text \<open>
  The statements below hold for every image library. To run the aligners on concrete
  images, \<open>test_backend\<close> supplies one: the comparator is the sum of the absolute
  sample differences (lower is better), a rotation by 180 degrees reverses the
  samples, a flip about x swaps the two samples of each row of an image two samples
  wide, the row-wise correlation is summed into one row, the polar unwrapping has the
  requested angular length, every FFT size is 128, the correlation peak sits on the
  corner of the search window and the footprint peak at angle 0; the other operations
  leave the image as it is.
\<close>

definition l1_distance :: "real list \<Rightarrow> real list \<Rightarrow> real" where
  "l1_distance xs ys = sum_list (map2 (\<lambda>x y. \<bar>x - y\<bar>) xs ys)"

fun mirror_pairs :: "'a list \<Rightarrow> 'a list" where
  "mirror_pairs (x # y # zs) = y # x # mirror_pairs zs"
| "mirror_pairs xs = xs"

definition test_process :: "string \<Rightarrow> Dict \<Rightarrow> EMData \<Rightarrow> EMData" where
  "test_process name d img =
     (if name = ''math.rotate.180'' then img\<lparr>rdata := rev (rdata img)\<rparr>
      else if name = ''xform.flip'' then img\<lparr>rdata := mirror_pairs (rdata img)\<rparr>
      else img)"

definition test_backend :: backend where
  "test_backend =
     \<lparr>calc_ccf = (\<lambda>a w. a),
      calc_ccfx = (\<lambda>a w y0 y1.
         \<lparr>nx = nx a, ny = 1, nz = 1, rdata = take (nat (nx a)) (rdata a),
          attr_dict = Map.empty\<rparr>),
      calc_max_location_wrap = (\<lambda>cf sx sy sz. (sx, - sy, sz)),
      zero_corner_circulant = (\<lambda>r cf. cf),
      process = test_process,
      cmp = (\<lambda>name d a w. l1_distance (rdata a) (rdata w)),
      make_rotational_footprint_e1 = (\<lambda>img. img),
      make_rotational_footprint = (\<lambda>img. img),
      make_rotational_footprint_cmc = (\<lambda>img. img),
      find_max = (\<lambda>d n. (0, 0)),
      unwrap = (\<lambda>r1 r2 xs dx dy do360 img.
         \<lparr>nx = xs, ny = r2 - r1, nz = 1, rdata = rdata img, attr_dict = Map.empty\<rparr>),
      calc_best_fft_size = (\<lambda>n. 128),
      transform = (\<lambda>t img. img),
      dot_rotate_translate = (\<lambda>a w x y az m. 0),
      calc_max_index = (\<lambda>img. 0),
      rotate_x = (\<lambda>n img. img),
      set_pre_trans = (\<lambda>v t. case v of (x, y) \<Rightarrow> t\<lparr>tx := x, ty := y\<rparr>)\<rparr>"

definition blank_image :: "int \<Rightarrow> int \<Rightarrow> int \<Rightarrow> EMData" where
  "blank_image w h d = \<lparr>nx = w, ny = h, nz = d, rdata = [], attr_dict = Map.empty\<rparr>"

definition image2x2 :: "real list \<Rightarrow> EMData" where
  "image2x2 samples = \<lparr>nx = 2, ny = 2, nz = 1, rdata = samples, attr_dict = Map.empty\<rparr>"

definition with_transform :: "real list \<Rightarrow> Transform \<Rightarrow> EMData" where
  "with_transform samples t =
     \<lparr>nx = 2, ny = 2, nz = 1, rdata = samples, attr_dict = [''xform.align2d'' \<mapsto> t]\<rparr>"

section \<open>Properties\<close>

subsection \<open>Evaluation and the error monad\<close>

lemma c_div_nonneg: "0 \<le> a \<Longrightarrow> 0 < b \<Longrightarrow> c_div a b = a div b"
  by (cases "a = 0") (simp_all add: c_div_def)

lemma ebind_Inr: "ebind m f = Inr r \<longleftrightarrow> (\<exists>v. m = Inr v \<and> f v = Inr r)"
  by (cases m) (simp_all add: ebind_def)

lemma ebind_simps [simp]: "ebind (Inr v) f = f v" "ebind (Inl e) f = Inl e"
  by (simp_all add: ebind_def)

lemma blank_image_sel [simp]:
  "nx (blank_image w h d) = w" "ny (blank_image w h d) = h" "nz (blank_image w h d) = d"
  by (simp_all add: blank_image_def)

lemmas test_defs = test_backend_def test_process_def

lemmas translational_defs = TranslationalAligner_align_def translational_peak_def
  translational_bounds_def translational_cur_trans_def translational_result_def
  maxshift_bounds_def clamp_maxshift_def intonly_option_def translate_params_def
  c_div_def c_trunc_def round_half_def

lemmas object_defs = deref_def dict_get_def set_default_def get_set_align_attr_def
  get_align_attr_def set_attr_def get_attr_def update_attr_def set_rotation_def set_trans_def
  set_mirror_def Transform_new_def Transform_2d_def is_same_size_def get_trans_def

subsection \<open>The aligners on the test library\<close>

lemma test_backend_sel:
  "calc_ccf test_backend a ref = a"
  "calc_ccfx test_backend a w0 y0 y1 =
     \<lparr>nx = nx a, ny = 1, nz = 1, rdata = take (nat (nx a)) (rdata a), attr_dict = Map.empty\<rparr>"
  "calc_max_location_wrap test_backend cf sx sy sz = (sx, - sy, sz)"
  "zero_corner_circulant test_backend r cf = cf"
  "process test_backend = test_process"
  "cmp test_backend name d a w = l1_distance (rdata a) (rdata w)"
  "make_rotational_footprint_e1 test_backend img = img"
  "make_rotational_footprint test_backend img = img"
  "make_rotational_footprint_cmc test_backend img = img"
  "find_max test_backend xs n = (0, 0)"
  "unwrap test_backend r1 r2 xs' dx dy do360 img =
     \<lparr>nx = xs', ny = r2 - r1, nz = 1, rdata = rdata img, attr_dict = Map.empty\<rparr>"
  "calc_best_fft_size test_backend n = 128"
  "transform test_backend t img = img"
  "dot_rotate_translate test_backend a w x y az m = 0"
  "calc_max_index test_backend img = 0"
  "rotate_x test_backend n img = img"
  "set_pre_trans test_backend (x, y) t = t\<lparr>tx := x, ty := y\<rparr>"
  by (simp_all add: test_backend_def)

lemma test_process_sel:
  "test_process ''math.rotate.180'' d img = img\<lparr>rdata := rev (rdata img)\<rparr>"
  "test_process ''xform.flip'' d img = img\<lparr>rdata := mirror_pairs (rdata img)\<rparr>"
  "test_process ''math.translate.int'' d img = img"
  "test_process ''math.transform'' d img = img"
  "test_process ''math.medianshrink'' d img = img"
  by (simp_all add: test_process_def)

lemma image_sel:
  "nx (image2x2 s) = 2" "ny (image2x2 s) = 2" "nz (image2x2 s) = 1" "rdata (image2x2 s) = s"
  "attr_dict (image2x2 s) key = None"
  "nx (with_transform s t) = 2" "ny (with_transform s t) = 2" "nz (with_transform s t) = 1"
  "rdata (with_transform s t) = s"
  "attr_dict (with_transform s t) ''xform.align2d'' = Some t"
  "(image2x2 s)\<lparr>rdata := s'\<rparr> = image2x2 s'"
  "(with_transform s t)\<lparr>rdata := s'\<rparr> = with_transform s' t"
  "set_attr ''xform.align2d'' t' (image2x2 s) = with_transform s t'"
  "set_attr ''xform.align2d'' t' (with_transform s t) = with_transform s t'"
  by (simp_all add: image2x2_def with_transform_def set_attr_def)

lemmas eval_simps = test_backend_sel test_process_sel image_sel l1_distance_def

lemma align_180_eval:
  "align_180_ambiguous test_backend (Some (image2x2 [1, 2, 3, 4])) (Some t) 0 =
     Inr (with_transform [1, 2, 3, 4] Transform_new)"
  by (simp add: eval_simps align_180_ambiguous_def make_footprint_def deref_def
      get_set_align_attr_def set_rotation_def Let_def Transform_new_def)

lemma rotational_candidates_eval:
  "RotationalAligner_candidates test_backend Map.empty (Some (image2x2 [1, 2, 3, 4])) t =
     Inr (with_transform [1, 2, 3, 4] Transform_new, with_transform [4, 3, 2, 1] Transform_new, 0)"
  by (simp add: RotationalAligner_candidates_def rfp_mode_option_def dict_get_def
      set_default_def align_180_eval get_attr_def eval_simps Transform_new_def)

lemma rotational_candidates_eval':
  "RotationalAligner_candidates test_backend [''rfp_mode'' \<mapsto> INT_obj 0] (Some (image2x2 [1, 2, 3, 4])) t =
     Inr (with_transform [1, 2, 3, 4] Transform_new, with_transform [4, 3, 2, 1] Transform_new, 0)"
  by (simp add: RotationalAligner_candidates_def rfp_mode_option_def dict_get_def
      set_default_def align_180_eval get_attr_def eval_simps Transform_new_def)

lemma cmp_eval:
  "cmp test_backend name d (with_transform [a1, a2, a3, a4] T) (image2x2 [b1, b2, b3, b4]) =
     \<bar>a1 - b1\<bar> + \<bar>a2 - b2\<bar> + \<bar>a3 - b3\<bar> + \<bar>a4 - b4\<bar>"
  by (simp add: eval_simps l1_distance_def)

lemma rotational_tie_eval:
  "RotationalAligner_align test_backend Map.empty (Some (image2x2 [1, 2, 3, 4]))
     (Some (image2x2 [0, 0, 0, 0])) name d =
   Inr (Some (with_transform [4, 3, 2, 1] (Transform_new\<lparr>alpha := - 180\<rparr>)))"
  by (simp add: RotationalAligner_align_def rotational_candidates_eval cmp_eval
      get_align_attr_def eval_simps set_rotation_def)


lemma translational_2x2_eval:
  "TranslationalAligner_align test_backend
     [''intonly'' \<mapsto> INT_obj 0, ''maxshift'' \<mapsto> INT_obj (- 1), ''nozero'' \<mapsto> BOOL False]
     (Some (with_transform [a1, a2, a3, a4] Transform_new)) (Some (image2x2 [b1, b2, b3, b4])) =
   Inr (Some (with_transform [a1, a2, a3, a4] Transform_new))"
  "TranslationalAligner_align test_backend
     [''intonly'' \<mapsto> INT_obj 0, ''maxshift'' \<mapsto> INT_obj 0, ''nozero'' \<mapsto> BOOL False]
     (Some (with_transform [a1, a2, a3, a4] Transform_new)) (Some (image2x2 [b1, b2, b3, b4])) =
   Inr (Some (with_transform [a1, a2, a3, a4] Transform_new))"
  by (simp_all add: translational_defs eval_simps dict_get_def set_default_def is_same_size_def
      get_set_align_attr_def set_trans_def Transform_new_def Let_def)

lemma rt_candidates_eval:
  "RotateTranslateAligner_candidates test_backend Map.empty (Some (image2x2 [1, 2, 3, 4]))
     (Some (image2x2 [b1, b2, b3, b4])) =
     Inr (with_transform [1, 2, 3, 4] Transform_new, with_transform [4, 3, 2, 1] Transform_new, 0)"
  "RotateTranslateAligner_candidates test_backend
     [''maxshift'' \<mapsto> UNKNOWN, ''rfp_mode'' \<mapsto> INT_obj 0] (Some (image2x2 [1, 2, 3, 4]))
     (Some (image2x2 [b1, b2, b3, b4])) =
     Inr (with_transform [1, 2, 3, 4] Transform_new, with_transform [4, 3, 2, 1] Transform_new, 0)"
  by (simp_all add: RotateTranslateAligner_candidates_def rfp_mode_option_def dict_get_def
      set_default_def align_180_eval get_attr_def eval_simps translational_2x2_eval deref_def
      Let_def)
     (simp_all add: Transform_new_def)

lemma rt_eval:
  "RotateTranslateAligner_align test_backend Map.empty (Some (image2x2 [1, 2, 3, 4]))
     (Some (image2x2 [0, 0, 0, 0])) name d =
   Inr (Some (with_transform [4, 3, 2, 1] (Transform_new\<lparr>alpha := - 180\<rparr>)))"
  "RotateTranslateAligner_align test_backend [''maxshift'' \<mapsto> UNKNOWN, ''rfp_mode'' \<mapsto> INT_obj 0]
     (Some (image2x2 [1, 2, 3, 4])) (Some (image2x2 [0, 0, 0, 0])) name d =
   Inr (Some (with_transform [4, 3, 2, 1] (Transform_new\<lparr>alpha := - 180\<rparr>)))"
  "RotateTranslateAligner_align test_backend [''maxshift'' \<mapsto> UNKNOWN, ''rfp_mode'' \<mapsto> INT_obj 0]
     (Some (image2x2 [1, 2, 3, 4])) (Some (image2x2 [2, 1, 4, 3])) name d =
   Inr (Some (with_transform [1, 2, 3, 4] Transform_new))"
  "RotateTranslateAligner_align test_backend [''maxshift'' \<mapsto> UNKNOWN, ''rfp_mode'' \<mapsto> INT_obj 0]
     (Some (image2x2 [1, 2, 3, 4])) (Some (image2x2 [1, 2, 3, 4])) name d =
   Inr (Some (with_transform [1, 2, 3, 4] Transform_new))"
  by (simp_all add: RotateTranslateAligner_align_def rt_candidates_eval deref_def
      update_attr_def get_attr_def eval_simps set_rotation_def)
     (simp_all add: Transform_new_def)

lemma flip_x_eval:
  "flip_x test_backend (image2x2 [b1, b2, b3, b4]) = image2x2 [b2, b1, b4, b3]"
  "flip_x test_backend (with_transform [b1, b2, b3, b4] t) = with_transform [b2, b1, b4, b3] t"
  by (simp_all add: flip_x_def eval_simps)

lemma rtf_candidates_tie_eval:
  "RotateTranslateFlipAligner_candidates test_backend Map.empty (Some (image2x2 [1, 2, 3, 4]))
     (Some (image2x2 [0, 0, 0, 0])) name d =
   Inr (with_transform [4, 3, 2, 1] (Transform_new\<lparr>alpha := - 180\<rparr>),
        with_transform [4, 3, 2, 1] (Transform_new\<lparr>alpha := - 180, mirror := True\<rparr>),
        image2x2 [0, 0, 0, 0], image2x2 [0, 0, 0, 0])"
  by (simp add: RotateTranslateFlipAligner_candidates_def rfp_mode_option_def dict_get_def
      set_default_def deref_def rt_eval flip_x_eval get_align_attr_def eval_simps set_mirror_def
      Let_def)

lemma rtf_candidates_mirror_eval:
  "RotateTranslateFlipAligner_candidates test_backend Map.empty (Some (image2x2 [1, 2, 3, 4]))
     (Some (image2x2 [2, 1, 4, 3])) name d =
   Inr (with_transform [1, 2, 3, 4] Transform_new,
        with_transform [1, 2, 3, 4] (Transform_new\<lparr>mirror := True\<rparr>),
        image2x2 [2, 1, 4, 3], image2x2 [1, 2, 3, 4])"
  by (simp add: RotateTranslateFlipAligner_candidates_def rfp_mode_option_def dict_get_def
      set_default_def deref_def rt_eval flip_x_eval get_align_attr_def eval_simps set_mirror_def
      Let_def)

lemma rtf_eval:
  "RotateTranslateFlipAligner_align test_backend Map.empty (Some (image2x2 [1, 2, 3, 4]))
     (Some (image2x2 [0, 0, 0, 0])) name d =
   Inr (Some (with_transform [3, 4, 1, 2] (Transform_new\<lparr>alpha := - 180, mirror := True\<rparr>)))"
  "RotateTranslateFlipAligner_align test_backend Map.empty (Some (image2x2 [1, 2, 3, 4]))
     (Some (image2x2 [2, 1, 4, 3])) name d =
   Inr (Some (with_transform [2, 1, 4, 3] (Transform_new\<lparr>mirror := True\<rparr>)))"
  by (simp_all add: RotateTranslateFlipAligner_align_def rtf_candidates_tie_eval
      rtf_candidates_mirror_eval cmp_eval flip_x_eval)

lemma rotational_eval':
  "RotationalAligner_align test_backend [''rfp_mode'' \<mapsto> INT_obj 0] (Some (image2x2 [1, 2, 3, 4]))
     (Some (image2x2 [0, 0, 0, 0])) name d =
   Inr (Some (with_transform [4, 3, 2, 1] (Transform_new\<lparr>alpha := - 180\<rparr>)))"
  by (simp add: RotationalAligner_align_def rotational_candidates_eval' cmp_eval
      get_align_attr_def eval_simps set_rotation_def)

lemma rf_candidates_tie_eval:
  "RotateFlipAligner_candidates test_backend Map.empty (Some (image2x2 [1, 2, 3, 4]))
     (Some (image2x2 [0, 0, 0, 0])) name d =
   Inr (with_transform [4, 3, 2, 1] (Transform_new\<lparr>alpha := - 180\<rparr>),
        with_transform [4, 3, 2, 1] (Transform_new\<lparr>alpha := - 180, mirror := True\<rparr>),
        image2x2 [0, 0, 0, 0], image2x2 [0, 0, 0, 0])"
  by (simp add: RotateFlipAligner_candidates_def rfp_mode_option_def dict_get_def
      set_default_def deref_def rotational_eval' flip_x_eval get_align_attr_def eval_simps
      set_mirror_def Let_def)

lemma rf_eval:
  "RotateFlipAligner_align test_backend Map.empty (Some (image2x2 [1, 2, 3, 4]))
     (Some (image2x2 [0, 0, 0, 0])) name d =
   Inr (Some (with_transform [3, 4, 1, 2] (Transform_new\<lparr>alpha := - 180, mirror := True\<rparr>)))"
  by (simp add: RotateFlipAligner_align_def rf_candidates_tie_eval cmp_eval flip_x_eval)


subsection \<open>The search window of the translational aligner\<close>

lemma clamp_maxshift_le: "n \<noteq> 1 \<Longrightarrow> 0 \<le> n \<Longrightarrow> clamp_maxshift m n \<le> n div 2 - 1"
  by (simp add: clamp_maxshift_def c_div_nonneg Let_def)

lemma clamp_maxshift_one: "clamp_maxshift m 1 = 0"
  by (simp add: clamp_maxshift_def)

lemma clamp_maxshift_default: "1 \<le> n \<Longrightarrow> clamp_maxshift (n div 8) n = n div 8"
  unfolding clamp_maxshift_def Let_def by (simp add: c_div_nonneg) presburger

lemma clamp_maxshift_bound:
  "1 \<le> n \<Longrightarrow> (if n = 1 then clamp_maxshift m n = 0 else clamp_maxshift m n \<le> n div 2 - 1)"
  using clamp_maxshift_le[of n m] clamp_maxshift_one[of m] by (cases "n = 1") simp_all

lemma maxshift_bounds_default:
  "mx \<le> 0 \<Longrightarrow> 1 \<le> nx img \<Longrightarrow> 1 \<le> ny img \<Longrightarrow> 1 \<le> nz img \<Longrightarrow>
   maxshift_bounds mx my mz img = (nx img div 8, ny img div 8, nz img div 8)"
  by (simp add: maxshift_bounds_def c_div_nonneg clamp_maxshift_default)

lemma translational_bounds_cases:
  "translational_bounds params img = Inr r \<Longrightarrow> \<exists>mx my mz. r = maxshift_bounds mx my mz img"
  by (auto simp: translational_bounds_def ebind_def Let_def split: sum.splits)

lemma translational_bounds_unset:
  "params ''maxshift'' = None \<Longrightarrow>
   translational_bounds params img = Inr (maxshift_bounds (- 1) (- 1) (- 1) img)"
  by (simp add: translational_bounds_def set_default_def dict_get_def ebind_def)

lemma translational_bounds_int:
  "params ''maxshift'' = Some (INT_obj m) \<Longrightarrow>
   translational_bounds params img = Inr (maxshift_bounds m m m img)"
  by (simp add: translational_bounds_def set_default_def dict_get_def ebind_def)

lemma translational_bounds_set:
  "params ''maxshift'' = Some v \<Longrightarrow> to_int v = Inr m \<Longrightarrow>
   translational_bounds params img = Inr (maxshift_bounds m m m img)"
  by (simp add: translational_bounds_def set_default_def dict_get_def)

lemma maxshift_bounds_clamped:
  assumes "1 \<le> nx img" "1 \<le> ny img" "1 \<le> nz img"
    and "maxshift_bounds mx my mz img = (sx, sy, sz)"
  shows "(if nx img = 1 then sx = 0 else sx \<le> nx img div 2 - 1) \<and>
         (if ny img = 1 then sy = 0 else sy \<le> ny img div 2 - 1) \<and>
         (if nz img = 1 then sz = 0 else sz \<le> nz img div 2 - 1)"
proof -
  obtain a b c where abc: "sx = clamp_maxshift a (nx img)" "sy = clamp_maxshift b (ny img)"
      "sz = clamp_maxshift c (nz img)"
    using assms(4) by (auto simp: maxshift_bounds_def Let_def split: if_splits)
  show ?thesis
    unfolding abc
    using clamp_maxshift_bound[OF assms(1), of a] clamp_maxshift_bound[OF assms(2), of b]
      clamp_maxshift_bound[OF assms(3), of c] by blast
qed

lemma bounds_eval_default:
  "translational_bounds Map.empty (blank_image 64 32 1) = Inr (8, 4, 0)"
  by (simp add: translational_bounds_unset maxshift_bounds_def clamp_maxshift_def c_div_def)

lemma bounds_eval_clamped:
  "translational_bounds [''maxshift'' \<mapsto> INT_obj 100] (blank_image 64 32 1) = Inr (31, 15, 0)"
  by (simp add: translational_bounds_int maxshift_bounds_def clamp_maxshift_def c_div_def)

text \<open>
  C4. In the translational aligner, for an image whose extents are at least 1: when
  \<^verbatim>\<open>maxshift\<close> is unset or set to a value whose conversion to \<^verbatim>\<open>int\<close> is not
  positive, the search bound of each axis is the extent of that axis divided by 8;
  and whatever \<^verbatim>\<open>maxshift\<close> is, the bound of an axis of extent 1 is 0 and the bound
  of any other axis is at most half the extent minus 1.
\<close>

theorem translational_search_bounds:
  assumes "1 \<le> nx img" "1 \<le> ny img" "1 \<le> nz img"
  shows "((params ''maxshift'' = None \<or>
           (\<exists>v m. params ''maxshift'' = Some v \<and> to_int v = Inr m \<and> m \<le> 0)) \<longrightarrow>
           translational_bounds params img = Inr (nx img div 8, ny img div 8, nz img div 8))
      \<and> (\<forall>sx sy sz. translational_bounds params img = Inr (sx, sy, sz) \<longrightarrow>
           (if nx img = 1 then sx = 0 else sx \<le> nx img div 2 - 1) \<and>
           (if ny img = 1 then sy = 0 else sy \<le> ny img div 2 - 1) \<and>
           (if nz img = 1 then sz = 0 else sz \<le> nz img div 2 - 1))"
proof -
  have dflt: "translational_bounds params img = Inr (nx img div 8, ny img div 8, nz img div 8)"
    if "params ''maxshift'' = None \<or>
        (\<exists>v m. params ''maxshift'' = Some v \<and> to_int v = Inr m \<and> m \<le> 0)"
    using that assms
    by (auto simp: translational_bounds_unset translational_bounds_set maxshift_bounds_default)
  have clamped: "(if nx img = 1 then sx = 0 else sx \<le> nx img div 2 - 1) \<and>
           (if ny img = 1 then sy = 0 else sy \<le> ny img div 2 - 1) \<and>
           (if nz img = 1 then sz = 0 else sz \<le> nz img div 2 - 1)"
    if h: "translational_bounds params img = Inr (sx, sy, sz)" for sx sy sz
  proof -
    obtain mx my mz where m: "maxshift_bounds mx my mz img = (sx, sy, sz)"
      using translational_bounds_cases[OF h] by metis
    show ?thesis by (rule maxshift_bounds_clamped[OF assms m])
  qed
  show ?thesis using dflt clamped by blast
qed

theorem translational_search_bounds_witness:
  "1 \<le> nx (blank_image 64 32 1) \<and> 1 \<le> ny (blank_image 64 32 1) \<and>
   1 \<le> nz (blank_image 64 32 1) \<and>
   (Map.empty :: Dict) ''maxshift'' = None \<and>
   translational_bounds Map.empty (blank_image 64 32 1) = Inr (8, 4, 0) \<and>
   translational_bounds [''maxshift'' \<mapsto> INT_obj 100] (blank_image 64 32 1) =
     Inr (31, 15, 0) \<and>
   (31::int) \<le> 64 div 2 - 1 \<and> (15::int) \<le> 32 div 2 - 1"
proof -
  have img: "1 \<le> nx (blank_image 64 32 1)" "1 \<le> ny (blank_image 64 32 1)"
    "1 \<le> nz (blank_image 64 32 1)"
    by simp_all
  have unset: "(Map.empty :: Dict) ''maxshift'' = None \<or>
      (\<exists>v m. (Map.empty :: Dict) ''maxshift'' = Some v \<and> to_int v = Inr m \<and> m \<le> 0)"
    by simp
  have d: "translational_bounds Map.empty (blank_image 64 32 1) =
      Inr (nx (blank_image 64 32 1) div 8, ny (blank_image 64 32 1) div 8,
           nz (blank_image 64 32 1) div 8)"
    by (rule translational_search_bounds[OF img, THEN conjunct1, rule_format, OF unset])
  have c: "(if nx (blank_image 64 32 1) = 1 then (31::int) = 0
            else 31 \<le> nx (blank_image 64 32 1) div 2 - 1) \<and>
           (if ny (blank_image 64 32 1) = 1 then (15::int) = 0
            else 15 \<le> ny (blank_image 64 32 1) div 2 - 1) \<and>
           (if nz (blank_image 64 32 1) = 1 then (0::int) = 0
            else 0 \<le> nz (blank_image 64 32 1) div 2 - 1)"
    by (rule translational_search_bounds[OF img, THEN conjunct2, rule_format,
          OF bounds_eval_clamped])
  from d have d': "translational_bounds Map.empty (blank_image 64 32 1) = Inr (8, 4, 0)"
    by simp
  from c have c': "(31::int) \<le> 64 div 2 - 1 \<and> (15::int) \<le> 32 div 2 - 1"
    by simp
  show ?thesis
    using img d' c' bounds_eval_clamped by simp
qed

subsection \<open>The null moving image\<close>

text \<open>
  C9. Called with a null moving image, the translational aligner returns the null
  pointer, whatever the reference image, the configuration and the image library are:
  no size check, no option and no image operation can change the result.
\<close>

theorem translational_null_moving_image:
  "TranslationalAligner_align b params None to = Inr None"
  by (simp add: TranslationalAligner_align_def)

subsection \<open>One-dimensional images and the transform keys\<close>

lemma translational_align_Some:
  assumes "TranslationalAligner_align b params (Some img) to = Inr (Some r)"
  shows "\<exists>v. r = translational_result b img v"
proof -
  have "ebind (translational_peak b params img to) (\<lambda>peak.
          ebind (translational_cur_trans params to peak) (\<lambda>cur_trans.
            Inr (Some (translational_result b img cur_trans)))) = Inr (Some r)"
    using assms by (simp add: TranslationalAligner_align_def split: if_splits)
  then show ?thesis
    unfolding ebind_Inr by blast
qed








subsection \<open>Self-alignment halves the peak\<close>

lemma translational_self_Inr:
  assumes "translational_peak b params img None = Inr (px, py, pz)"
    and "intonly_option params = Inr intonly"
  shows "TranslationalAligner_align b params (Some img) None =
           Inr (Some (translational_result b img
             (if intonly
              then (round_half (- of_int px / 2), round_half (- of_int py / 2),
                    round_half (- of_int pz / 2))
              else (- of_int px / 2, - of_int py / 2, - of_int pz / 2))))"
  using assms
  by (simp add: TranslationalAligner_align_def translational_cur_trans_def)

lemma translational_result_3d:
  "nz img \<noteq> 1 \<Longrightarrow>
   map_option get_trans (attr_dict (translational_result b img v) ''xform.align3d'') = Some v"
  by (cases v) (simp add: translational_result_def get_set_align_attr_def set_attr_def
      set_trans_def get_trans_def Let_def)

lemma translational_result_2d:
  "nz img = 1 \<Longrightarrow> ny img \<noteq> 1 \<Longrightarrow>
   map_option get_trans (attr_dict (translational_result b img v) ''xform.align2d'') =
     Some (fst v, fst (snd v), 0)"
  by (cases v) (simp add: translational_result_def get_set_align_attr_def set_attr_def
      set_trans_def get_trans_def Let_def)

text \<open>
  C5. When the translational aligner is called without a reference and the peak
  search returns the offset (px, py, pz), the translation it applies to the moving
  image is (-px / 2, -py / 2, -pz / 2), each component replaced by the floor of the
  component plus one half when \<^verbatim>\<open>intonly\<close> is set. A volume (nz not 1) carries
  this translation under the 3D key; a plane image (nz = 1, ny not 1) carries its x and
  y components under the 2D key, with z set to 0.
\<close>

theorem translational_self_alignment:
  assumes "translational_peak b params img None = Inr (px, py, pz)"
    and "intonly_option params = Inr intonly"
  shows "(let v = (if intonly
                   then (round_half (- of_int px / 2), round_half (- of_int py / 2),
                         round_half (- of_int pz / 2))
                   else (- of_int px / 2, - of_int py / 2, - of_int pz / 2));
              r = translational_result b img v
          in TranslationalAligner_align b params (Some img) None = Inr (Some r) \<and>
             (nz img \<noteq> 1 \<longrightarrow>
                map_option get_trans (attr_dict r ''xform.align3d'') = Some v) \<and>
             (nz img = 1 \<and> ny img \<noteq> 1 \<longrightarrow>
                map_option get_trans (attr_dict r ''xform.align2d'') =
                  Some (fst v, fst (snd v), 0)))"
  unfolding Let_def
  using translational_self_Inr[OF assms] translational_result_3d translational_result_2d
  by blast

lemma peak_eval:
  "translational_peak test_backend [''maxshift'' \<mapsto> INT_obj 3, ''intonly'' \<mapsto> BOOL True]
     (blank_image 16 16 1) None = Inr (3, - 3, 0)"
  by (simp add: test_defs translational_defs object_defs blank_image_def Let_def)

lemma intonly_eval:
  "intonly_option [''maxshift'' \<mapsto> INT_obj 3, ''intonly'' \<mapsto> BOOL True] = Inr True"
  by (simp add: intonly_option_def object_defs)

lemma round_half_evals: "round_half (- 3 / 2) = - 1" "round_half (3 / 2) = 2" "round_half 0 = 0"
  by (simp_all add: round_half_def)

theorem translational_self_alignment_witness:
  "translational_peak test_backend [''maxshift'' \<mapsto> INT_obj 3, ''intonly'' \<mapsto> BOOL True]
     (blank_image 16 16 1) None = Inr (3, - 3, 0) \<and>
   intonly_option [''maxshift'' \<mapsto> INT_obj 3, ''intonly'' \<mapsto> BOOL True] = Inr True \<and>
   TranslationalAligner_align test_backend [''maxshift'' \<mapsto> INT_obj 3, ''intonly'' \<mapsto> BOOL True]
     (Some (blank_image 16 16 1)) None =
     Inr (Some (translational_result test_backend (blank_image 16 16 1) (- 1, 2, 0))) \<and>
   map_option get_trans
     (attr_dict (translational_result test_backend (blank_image 16 16 1) (- 1, 2, 0))
        ''xform.align2d'') = Some (- 1, 2, 0)"
proof -
  note t = translational_self_alignment[OF peak_eval intonly_eval]
  have "TranslationalAligner_align test_backend
          [''maxshift'' \<mapsto> INT_obj 3, ''intonly'' \<mapsto> BOOL True]
          (Some (blank_image 16 16 1)) None =
        Inr (Some (translational_result test_backend (blank_image 16 16 1) (- 1, 2, 0))) \<and>
        map_option get_trans
          (attr_dict (translational_result test_backend (blank_image 16 16 1) (- 1, 2, 0))
             ''xform.align2d'') = Some (- 1, 2, 0)"
    using t by (simp add: Let_def round_half_def)
  then show ?thesis
    using peak_eval intonly_eval by simp
qed

subsection \<open>Ties between the two branches of a composite aligner\<close>

lemma rotational_decision:
  assumes "RotationalAligner_candidates b params this_img t = Inr (c1, c2, a)"
  shows "RotationalAligner_align b params this_img (Some t) cn cp =
           (if cmp b cn cp c1 t < cmp b cn cp c2 t
            then Inr (Some (get_align_attr ''xform.align2d'' c1 (set_rotation a)))
            else Inr (Some (get_align_attr ''xform.align2d'' c2 (set_rotation (a - 180)))))"
  using assms by (simp add: RotationalAligner_align_def)

lemma rotate_translate_decision:
  assumes "RotateTranslateAligner_candidates b params this_img (Some t) = Inr (c1, c2, a)"
  shows "RotateTranslateAligner_align b params this_img (Some t) cn cp =
           (if cmp b cn cp c1 t < cmp b cn cp c2 t
            then ebind (update_attr ''xform.align2d'' (set_rotation a) c1) (\<lambda>r. Inr (Some r))
            else ebind (update_attr ''xform.align2d'' (set_rotation (a - 180)) c2)
                   (\<lambda>r. Inr (Some r)))"
  using assms by (simp add: RotateTranslateAligner_align_def deref_def)

lemma rotate_flip_decision:
  assumes "RotateFlipAligner_candidates b params this_img to cn cp = Inr (c1, c2, t, flipped)"
  shows "RotateFlipAligner_align b params this_img to cn cp =
           (if cmp b cn cp c1 t < cmp b cn cp c2 flipped then Inr (Some c1)
            else Inr (Some (flip_x b c2)))"
  using assms by (simp add: RotateFlipAligner_align_def)

lemma rotate_translate_flip_decision:
  assumes "RotateTranslateFlipAligner_candidates b params this_img to cn cp =
             Inr (c1, c2, t, flipped)"
  shows "RotateTranslateFlipAligner_align b params this_img to cn cp =
           (if cmp b cn cp c1 t < cmp b cn cp c2 flipped then Inr (Some c1)
            else Inr (Some (flip_x b c2)))"
  using assms by (simp add: RotateTranslateFlipAligner_align_def)

lemma rotate_translate_flip_not_less:
  assumes "RotateTranslateFlipAligner_candidates b params this_img to cn cp =
             Inr (c1, c2, t, flipped)"
    and "\<not> cmp b cn cp c1 t < cmp b cn cp c2 flipped"
  shows "RotateTranslateFlipAligner_align b params this_img to cn cp =
           Inr (Some (flip_x b c2))"
  using assms by (simp add: RotateTranslateFlipAligner_align_def)

text \<open>
  C1, as the code has it. Every composite aligner decides with the strict test
  \<^verbatim>\<open>cmp1 < cmp2\<close>. When the two scores are equal, the rotational and the
  rotate_translate aligner return the candidate rotated by a further 180 degrees,
  with the angle lowered by 180, and the rotate_flip and the rotate_translate_flip
  aligner return the candidate aligned against the mirrored reference, flipped about
  x. The first candidate is returned when its score is strictly lower, and the second
  one also when the second score is strictly lower: the first candidate is returned
  only on a strictly lower score.
\<close>

theorem composite_tie_keeps_second_branch:
  "(RotationalAligner_candidates b params this_img t = Inr (r1, r2, ra) \<longrightarrow>
      (cmp b cn cp r1 t = cmp b cn cp r2 t \<longrightarrow>
         RotationalAligner_align b params this_img (Some t) cn cp =
           Inr (Some (get_align_attr ''xform.align2d'' r2 (set_rotation (ra - 180))))) \<and>
      (cmp b cn cp r1 t < cmp b cn cp r2 t \<longrightarrow>
         RotationalAligner_align b params this_img (Some t) cn cp =
           Inr (Some (get_align_attr ''xform.align2d'' r1 (set_rotation ra)))) \<and>
      (cmp b cn cp r2 t < cmp b cn cp r1 t \<longrightarrow>
         RotationalAligner_align b params this_img (Some t) cn cp =
           Inr (Some (get_align_attr ''xform.align2d'' r2 (set_rotation (ra - 180)))))) \<and>
   (RotateTranslateAligner_candidates b params this_img (Some t) = Inr (t1, t2, ta) \<longrightarrow>
      (cmp b cn cp t1 t = cmp b cn cp t2 t \<longrightarrow>
         RotateTranslateAligner_align b params this_img (Some t) cn cp =
           ebind (update_attr ''xform.align2d'' (set_rotation (ta - 180)) t2)
             (\<lambda>r. Inr (Some r))) \<and>
      (cmp b cn cp t1 t < cmp b cn cp t2 t \<longrightarrow>
         RotateTranslateAligner_align b params this_img (Some t) cn cp =
           ebind (update_attr ''xform.align2d'' (set_rotation ta) t1) (\<lambda>r. Inr (Some r))) \<and>
      (cmp b cn cp t2 t < cmp b cn cp t1 t \<longrightarrow>
         RotateTranslateAligner_align b params this_img (Some t) cn cp =
           ebind (update_attr ''xform.align2d'' (set_rotation (ta - 180)) t2)
             (\<lambda>r. Inr (Some r)))) \<and>
   (RotateFlipAligner_candidates b params this_img to cn cp = Inr (f1, f2, ft, ff) \<longrightarrow>
      (cmp b cn cp f1 ft = cmp b cn cp f2 ff \<longrightarrow>
         RotateFlipAligner_align b params this_img to cn cp = Inr (Some (flip_x b f2))) \<and>
      (cmp b cn cp f1 ft < cmp b cn cp f2 ff \<longrightarrow>
         RotateFlipAligner_align b params this_img to cn cp = Inr (Some f1)) \<and>
      (cmp b cn cp f2 ff < cmp b cn cp f1 ft \<longrightarrow>
         RotateFlipAligner_align b params this_img to cn cp = Inr (Some (flip_x b f2)))) \<and>
   (RotateTranslateFlipAligner_candidates b params this_img to cn cp = Inr (g1, g2, gt, gf) \<longrightarrow>
      (cmp b cn cp g1 gt = cmp b cn cp g2 gf \<longrightarrow>
         RotateTranslateFlipAligner_align b params this_img to cn cp =
           Inr (Some (flip_x b g2))) \<and>
      (cmp b cn cp g1 gt < cmp b cn cp g2 gf \<longrightarrow>
         RotateTranslateFlipAligner_align b params this_img to cn cp = Inr (Some g1)) \<and>
      (cmp b cn cp g2 gf < cmp b cn cp g1 gt \<longrightarrow>
         RotateTranslateFlipAligner_align b params this_img to cn cp =
           Inr (Some (flip_x b g2))))"
proof -
  have 1: "RotationalAligner_candidates b params this_img t = Inr (r1, r2, ra) \<longrightarrow>
      (cmp b cn cp r1 t = cmp b cn cp r2 t \<longrightarrow>
         RotationalAligner_align b params this_img (Some t) cn cp =
           Inr (Some (get_align_attr ''xform.align2d'' r2 (set_rotation (ra - 180))))) \<and>
      (cmp b cn cp r1 t < cmp b cn cp r2 t \<longrightarrow>
         RotationalAligner_align b params this_img (Some t) cn cp =
           Inr (Some (get_align_attr ''xform.align2d'' r1 (set_rotation ra)))) \<and>
      (cmp b cn cp r2 t < cmp b cn cp r1 t \<longrightarrow>
         RotationalAligner_align b params this_img (Some t) cn cp =
           Inr (Some (get_align_attr ''xform.align2d'' r2 (set_rotation (ra - 180)))))"
    by (simp add: rotational_decision)
  have 2: "RotateTranslateAligner_candidates b params this_img (Some t) = Inr (t1, t2, ta) \<longrightarrow>
      (cmp b cn cp t1 t = cmp b cn cp t2 t \<longrightarrow>
         RotateTranslateAligner_align b params this_img (Some t) cn cp =
           ebind (update_attr ''xform.align2d'' (set_rotation (ta - 180)) t2)
             (\<lambda>r. Inr (Some r))) \<and>
      (cmp b cn cp t1 t < cmp b cn cp t2 t \<longrightarrow>
         RotateTranslateAligner_align b params this_img (Some t) cn cp =
           ebind (update_attr ''xform.align2d'' (set_rotation ta) t1) (\<lambda>r. Inr (Some r))) \<and>
      (cmp b cn cp t2 t < cmp b cn cp t1 t \<longrightarrow>
         RotateTranslateAligner_align b params this_img (Some t) cn cp =
           ebind (update_attr ''xform.align2d'' (set_rotation (ta - 180)) t2)
             (\<lambda>r. Inr (Some r)))"
    by (simp add: rotate_translate_decision)
  have 3: "RotateFlipAligner_candidates b params this_img to cn cp = Inr (f1, f2, ft, ff) \<longrightarrow>
      (cmp b cn cp f1 ft = cmp b cn cp f2 ff \<longrightarrow>
         RotateFlipAligner_align b params this_img to cn cp = Inr (Some (flip_x b f2))) \<and>
      (cmp b cn cp f1 ft < cmp b cn cp f2 ff \<longrightarrow>
         RotateFlipAligner_align b params this_img to cn cp = Inr (Some f1)) \<and>
      (cmp b cn cp f2 ff < cmp b cn cp f1 ft \<longrightarrow>
         RotateFlipAligner_align b params this_img to cn cp = Inr (Some (flip_x b f2)))"
    by (simp add: rotate_flip_decision)
  have 4: "RotateTranslateFlipAligner_candidates b params this_img to cn cp =
        Inr (g1, g2, gt, gf) \<longrightarrow>
      (cmp b cn cp g1 gt = cmp b cn cp g2 gf \<longrightarrow>
         RotateTranslateFlipAligner_align b params this_img to cn cp =
           Inr (Some (flip_x b g2))) \<and>
      (cmp b cn cp g1 gt < cmp b cn cp g2 gf \<longrightarrow>
         RotateTranslateFlipAligner_align b params this_img to cn cp = Inr (Some g1)) \<and>
      (cmp b cn cp g2 gf < cmp b cn cp g1 gt \<longrightarrow>
         RotateTranslateFlipAligner_align b params this_img to cn cp =
           Inr (Some (flip_x b g2)))"
    by (simp add: rotate_translate_flip_decision)
  from 1 2 3 4 show ?thesis by (intro conjI)
qed

lemma cmp_order_evals:
  "cmp test_backend name d (with_transform [1, 2, 3, 4] Transform_new) (image2x2 [0, 0, 0, 0]) =
   cmp test_backend name d (with_transform [4, 3, 2, 1] Transform_new) (image2x2 [0, 0, 0, 0])"
  "cmp test_backend name d (with_transform [1, 2, 3, 4] Transform_new) (image2x2 [1, 2, 3, 4]) <
   cmp test_backend name d (with_transform [4, 3, 2, 1] Transform_new) (image2x2 [1, 2, 3, 4])"
  "cmp test_backend name d (with_transform [4, 3, 2, 1] Transform_new) (image2x2 [4, 3, 2, 1]) <
   cmp test_backend name d (with_transform [1, 2, 3, 4] Transform_new) (image2x2 [4, 3, 2, 1])"
  "cmp test_backend name d (with_transform [4, 3, 2, 1] (Transform_new\<lparr>alpha := - 180\<rparr>))
     (image2x2 [0, 0, 0, 0]) =
   cmp test_backend name d
     (with_transform [4, 3, 2, 1] (Transform_new\<lparr>alpha := - 180, mirror := True\<rparr>))
     (image2x2 [0, 0, 0, 0])"
  "cmp test_backend name d (with_transform [1, 2, 3, 4] Transform_new) (image2x2 [1, 2, 3, 4]) <
   cmp test_backend name d (with_transform [1, 2, 3, 4] (Transform_new\<lparr>mirror := True\<rparr>))
     (image2x2 [2, 1, 4, 3])"
  "cmp test_backend name d (with_transform [1, 2, 3, 4] (Transform_new\<lparr>mirror := True\<rparr>))
     (image2x2 [1, 2, 3, 4]) <
   cmp test_backend name d (with_transform [1, 2, 3, 4] Transform_new) (image2x2 [2, 1, 4, 3])"
  by (simp_all add: cmp_eval)

lemma rotational_order_eval:
  "RotationalAligner_align test_backend [''rfp_mode'' \<mapsto> INT_obj 0] (Some (image2x2 [1, 2, 3, 4]))
     (Some (image2x2 [1, 2, 3, 4])) name d =
   Inr (Some (with_transform [1, 2, 3, 4] Transform_new))"
  "RotationalAligner_align test_backend [''rfp_mode'' \<mapsto> INT_obj 0] (Some (image2x2 [1, 2, 3, 4]))
     (Some (image2x2 [2, 1, 4, 3])) name d =
   Inr (Some (with_transform [1, 2, 3, 4] Transform_new))"
  by (simp_all add: RotationalAligner_align_def rotational_candidates_eval' cmp_eval
      get_align_attr_def eval_simps set_rotation_def)
     (simp_all add: Transform_new_def)

lemma rf_candidates_order_eval:
  "RotateFlipAligner_candidates test_backend Map.empty (Some (image2x2 [1, 2, 3, 4]))
     (Some (image2x2 [1, 2, 3, 4])) name d =
   Inr (with_transform [1, 2, 3, 4] Transform_new,
        with_transform [1, 2, 3, 4] (Transform_new\<lparr>mirror := True\<rparr>),
        image2x2 [1, 2, 3, 4], image2x2 [2, 1, 4, 3])"
  "RotateFlipAligner_candidates test_backend Map.empty (Some (image2x2 [1, 2, 3, 4]))
     (Some (image2x2 [2, 1, 4, 3])) name d =
   Inr (with_transform [1, 2, 3, 4] Transform_new,
        with_transform [1, 2, 3, 4] (Transform_new\<lparr>mirror := True\<rparr>),
        image2x2 [2, 1, 4, 3], image2x2 [1, 2, 3, 4])"
  by (simp_all add: RotateFlipAligner_candidates_def rfp_mode_option_def dict_get_def
      set_default_def deref_def rotational_order_eval flip_x_eval get_align_attr_def eval_simps
      set_mirror_def Let_def)

lemma rtf_candidates_first_eval:
  "RotateTranslateFlipAligner_candidates test_backend Map.empty (Some (image2x2 [1, 2, 3, 4]))
     (Some (image2x2 [1, 2, 3, 4])) name d =
   Inr (with_transform [1, 2, 3, 4] Transform_new,
        with_transform [1, 2, 3, 4] (Transform_new\<lparr>mirror := True\<rparr>),
        image2x2 [1, 2, 3, 4], image2x2 [2, 1, 4, 3])"
  by (simp add: RotateTranslateFlipAligner_candidates_def rfp_mode_option_def dict_get_def
      set_default_def deref_def rt_eval flip_x_eval get_align_attr_def eval_simps set_mirror_def
      Let_def)

lemma second_candidate_evals:
  "get_align_attr ''xform.align2d'' (with_transform s Transform_new) (set_rotation (0 - 180)) =
     with_transform s (Transform_new\<lparr>alpha := - 180\<rparr>)"
  "get_align_attr ''xform.align2d'' (with_transform s Transform_new) (set_rotation 0) =
     with_transform s Transform_new"
  "ebind (update_attr ''xform.align2d'' (set_rotation (0 - 180)) (with_transform s Transform_new))
     (\<lambda>r. Inr (Some r)) = Inr (Some (with_transform s (Transform_new\<lparr>alpha := - 180\<rparr>)))"
  "ebind (update_attr ''xform.align2d'' (set_rotation 0) (with_transform s Transform_new))
     (\<lambda>r. Inr (Some r)) = Inr (Some (with_transform s Transform_new))"
  by (simp_all add: get_align_attr_def update_attr_def get_attr_def image_sel set_rotation_def)
     (simp_all add: Transform_new_def)

theorem composite_tie_keeps_second_branch_witness:
  "cmp test_backend ''dot'' Map.empty (with_transform [1, 2, 3, 4] Transform_new)
     (image2x2 [0, 0, 0, 0]) =
   cmp test_backend ''dot'' Map.empty (with_transform [4, 3, 2, 1] Transform_new)
     (image2x2 [0, 0, 0, 0]) \<and>
   RotationalAligner_align test_backend Map.empty (Some (image2x2 [1, 2, 3, 4]))
     (Some (image2x2 [0, 0, 0, 0])) ''dot'' Map.empty =
     Inr (Some (with_transform [4, 3, 2, 1] (Transform_new\<lparr>alpha := - 180\<rparr>))) \<and>
   RotateTranslateAligner_align test_backend Map.empty (Some (image2x2 [1, 2, 3, 4]))
     (Some (image2x2 [0, 0, 0, 0])) ''dot'' Map.empty =
     Inr (Some (with_transform [4, 3, 2, 1] (Transform_new\<lparr>alpha := - 180\<rparr>))) \<and>
   cmp test_backend ''dot'' Map.empty (with_transform [1, 2, 3, 4] Transform_new)
     (image2x2 [1, 2, 3, 4]) <
   cmp test_backend ''dot'' Map.empty (with_transform [4, 3, 2, 1] Transform_new)
     (image2x2 [1, 2, 3, 4]) \<and>
   RotationalAligner_align test_backend Map.empty (Some (image2x2 [1, 2, 3, 4]))
     (Some (image2x2 [1, 2, 3, 4])) ''dot'' Map.empty =
     Inr (Some (with_transform [1, 2, 3, 4] Transform_new)) \<and>
   RotateTranslateAligner_align test_backend Map.empty (Some (image2x2 [1, 2, 3, 4]))
     (Some (image2x2 [1, 2, 3, 4])) ''dot'' Map.empty =
     Inr (Some (with_transform [1, 2, 3, 4] Transform_new)) \<and>
   cmp test_backend ''dot'' Map.empty (with_transform [4, 3, 2, 1] Transform_new)
     (image2x2 [4, 3, 2, 1]) <
   cmp test_backend ''dot'' Map.empty (with_transform [1, 2, 3, 4] Transform_new)
     (image2x2 [4, 3, 2, 1]) \<and>
   RotationalAligner_align test_backend Map.empty (Some (image2x2 [1, 2, 3, 4]))
     (Some (image2x2 [4, 3, 2, 1])) ''dot'' Map.empty =
     Inr (Some (with_transform [4, 3, 2, 1] (Transform_new\<lparr>alpha := - 180\<rparr>))) \<and>
   RotateTranslateAligner_align test_backend Map.empty (Some (image2x2 [1, 2, 3, 4]))
     (Some (image2x2 [4, 3, 2, 1])) ''dot'' Map.empty =
     Inr (Some (with_transform [4, 3, 2, 1] (Transform_new\<lparr>alpha := - 180\<rparr>))) \<and>
   cmp test_backend ''dot'' Map.empty
     (with_transform [4, 3, 2, 1] (Transform_new\<lparr>alpha := - 180\<rparr>)) (image2x2 [0, 0, 0, 0]) =
   cmp test_backend ''dot'' Map.empty
     (with_transform [4, 3, 2, 1] (Transform_new\<lparr>alpha := - 180, mirror := True\<rparr>))
     (image2x2 [0, 0, 0, 0]) \<and>
   RotateFlipAligner_align test_backend Map.empty (Some (image2x2 [1, 2, 3, 4]))
     (Some (image2x2 [0, 0, 0, 0])) ''dot'' Map.empty =
     Inr (Some (with_transform [3, 4, 1, 2] (Transform_new\<lparr>alpha := - 180, mirror := True\<rparr>))) \<and>
   RotateTranslateFlipAligner_align test_backend Map.empty (Some (image2x2 [1, 2, 3, 4]))
     (Some (image2x2 [0, 0, 0, 0])) ''dot'' Map.empty =
     Inr (Some (with_transform [3, 4, 1, 2] (Transform_new\<lparr>alpha := - 180, mirror := True\<rparr>))) \<and>
   cmp test_backend ''dot'' Map.empty (with_transform [1, 2, 3, 4] Transform_new)
     (image2x2 [1, 2, 3, 4]) <
   cmp test_backend ''dot'' Map.empty
     (with_transform [1, 2, 3, 4] (Transform_new\<lparr>mirror := True\<rparr>)) (image2x2 [2, 1, 4, 3]) \<and>
   RotateFlipAligner_align test_backend Map.empty (Some (image2x2 [1, 2, 3, 4]))
     (Some (image2x2 [1, 2, 3, 4])) ''dot'' Map.empty =
     Inr (Some (with_transform [1, 2, 3, 4] Transform_new)) \<and>
   RotateTranslateFlipAligner_align test_backend Map.empty (Some (image2x2 [1, 2, 3, 4]))
     (Some (image2x2 [1, 2, 3, 4])) ''dot'' Map.empty =
     Inr (Some (with_transform [1, 2, 3, 4] Transform_new)) \<and>
   cmp test_backend ''dot'' Map.empty
     (with_transform [1, 2, 3, 4] (Transform_new\<lparr>mirror := True\<rparr>)) (image2x2 [1, 2, 3, 4]) <
   cmp test_backend ''dot'' Map.empty (with_transform [1, 2, 3, 4] Transform_new)
     (image2x2 [2, 1, 4, 3]) \<and>
   RotateFlipAligner_align test_backend Map.empty (Some (image2x2 [1, 2, 3, 4]))
     (Some (image2x2 [2, 1, 4, 3])) ''dot'' Map.empty =
     Inr (Some (with_transform [2, 1, 4, 3] (Transform_new\<lparr>mirror := True\<rparr>))) \<and>
   RotateTranslateFlipAligner_align test_backend Map.empty (Some (image2x2 [1, 2, 3, 4]))
     (Some (image2x2 [2, 1, 4, 3])) ''dot'' Map.empty =
     Inr (Some (with_transform [2, 1, 4, 3] (Transform_new\<lparr>mirror := True\<rparr>)))"
proof -
  note T = composite_tie_keeps_second_branch[where b = test_backend and params = Map.empty
      and this_img = "Some (image2x2 [1, 2, 3, 4])" and cn = "''dot''" and cp = Map.empty]
  note R = T[THEN conjunct1, rule_format, OF rotational_candidates_eval]
  note RT = T[THEN conjunct2, THEN conjunct1, rule_format, OF rt_candidates_eval(1)]
  note RF = T[THEN conjunct2, THEN conjunct2, THEN conjunct1, rule_format]
  note RTF = T[THEN conjunct2, THEN conjunct2, THEN conjunct2, rule_format]
  have r_tie: "RotationalAligner_align test_backend Map.empty (Some (image2x2 [1, 2, 3, 4]))
      (Some (image2x2 [0, 0, 0, 0])) ''dot'' Map.empty =
      Inr (Some (with_transform [4, 3, 2, 1] (Transform_new\<lparr>alpha := - 180\<rparr>)))"
    using R[THEN conjunct1, rule_format, OF cmp_order_evals(1)]
    by (simp only: second_candidate_evals)
  have r_lt: "RotationalAligner_align test_backend Map.empty (Some (image2x2 [1, 2, 3, 4]))
      (Some (image2x2 [1, 2, 3, 4])) ''dot'' Map.empty =
      Inr (Some (with_transform [1, 2, 3, 4] Transform_new))"
    using R[THEN conjunct2, THEN conjunct1, rule_format, OF cmp_order_evals(2)]
    by (simp only: second_candidate_evals)
  have r_gt: "RotationalAligner_align test_backend Map.empty (Some (image2x2 [1, 2, 3, 4]))
      (Some (image2x2 [4, 3, 2, 1])) ''dot'' Map.empty =
      Inr (Some (with_transform [4, 3, 2, 1] (Transform_new\<lparr>alpha := - 180\<rparr>)))"
    using R[THEN conjunct2, THEN conjunct2, rule_format, OF cmp_order_evals(3)]
    by (simp only: second_candidate_evals)
  have rt_tie: "RotateTranslateAligner_align test_backend Map.empty (Some (image2x2 [1, 2, 3, 4]))
      (Some (image2x2 [0, 0, 0, 0])) ''dot'' Map.empty =
      Inr (Some (with_transform [4, 3, 2, 1] (Transform_new\<lparr>alpha := - 180\<rparr>)))"
    using RT[THEN conjunct1, rule_format, OF cmp_order_evals(1)]
    by (simp only: second_candidate_evals)
  have rt_lt: "RotateTranslateAligner_align test_backend Map.empty (Some (image2x2 [1, 2, 3, 4]))
      (Some (image2x2 [1, 2, 3, 4])) ''dot'' Map.empty =
      Inr (Some (with_transform [1, 2, 3, 4] Transform_new))"
    using RT[THEN conjunct2, THEN conjunct1, rule_format, OF cmp_order_evals(2)]
    by (simp only: second_candidate_evals)
  have rt_gt: "RotateTranslateAligner_align test_backend Map.empty (Some (image2x2 [1, 2, 3, 4]))
      (Some (image2x2 [4, 3, 2, 1])) ''dot'' Map.empty =
      Inr (Some (with_transform [4, 3, 2, 1] (Transform_new\<lparr>alpha := - 180\<rparr>)))"
    using RT[THEN conjunct2, THEN conjunct2, rule_format, OF cmp_order_evals(3)]
    by (simp only: second_candidate_evals)
  have rf_tie: "RotateFlipAligner_align test_backend Map.empty (Some (image2x2 [1, 2, 3, 4]))
      (Some (image2x2 [0, 0, 0, 0])) ''dot'' Map.empty =
      Inr (Some (with_transform [3, 4, 1, 2] (Transform_new\<lparr>alpha := - 180, mirror := True\<rparr>)))"
    using RF[OF rf_candidates_tie_eval, THEN conjunct1, rule_format, OF cmp_order_evals(4)]
    by (simp only: flip_x_eval)
  have rf_lt: "RotateFlipAligner_align test_backend Map.empty (Some (image2x2 [1, 2, 3, 4]))
      (Some (image2x2 [1, 2, 3, 4])) ''dot'' Map.empty =
      Inr (Some (with_transform [1, 2, 3, 4] Transform_new))"
    by (rule RF[OF rf_candidates_order_eval(1), THEN conjunct2, THEN conjunct1, rule_format,
          OF cmp_order_evals(5)])
  have rf_gt: "RotateFlipAligner_align test_backend Map.empty (Some (image2x2 [1, 2, 3, 4]))
      (Some (image2x2 [2, 1, 4, 3])) ''dot'' Map.empty =
      Inr (Some (with_transform [2, 1, 4, 3] (Transform_new\<lparr>mirror := True\<rparr>)))"
    using RF[OF rf_candidates_order_eval(2), THEN conjunct2, THEN conjunct2, rule_format,
        OF cmp_order_evals(6)]
    by (simp only: flip_x_eval)
  have rtf_tie: "RotateTranslateFlipAligner_align test_backend Map.empty
      (Some (image2x2 [1, 2, 3, 4])) (Some (image2x2 [0, 0, 0, 0])) ''dot'' Map.empty =
      Inr (Some (with_transform [3, 4, 1, 2] (Transform_new\<lparr>alpha := - 180, mirror := True\<rparr>)))"
    using RTF[OF rtf_candidates_tie_eval, THEN conjunct1, rule_format, OF cmp_order_evals(4)]
    by (simp only: flip_x_eval)
  have rtf_lt: "RotateTranslateFlipAligner_align test_backend Map.empty
      (Some (image2x2 [1, 2, 3, 4])) (Some (image2x2 [1, 2, 3, 4])) ''dot'' Map.empty =
      Inr (Some (with_transform [1, 2, 3, 4] Transform_new))"
    by (rule RTF[OF rtf_candidates_first_eval, THEN conjunct2, THEN conjunct1, rule_format,
          OF cmp_order_evals(5)])
  have rtf_gt: "RotateTranslateFlipAligner_align test_backend Map.empty
      (Some (image2x2 [1, 2, 3, 4])) (Some (image2x2 [2, 1, 4, 3])) ''dot'' Map.empty =
      Inr (Some (with_transform [2, 1, 4, 3] (Transform_new\<lparr>mirror := True\<rparr>)))"
    using RTF[OF rtf_candidates_mirror_eval, THEN conjunct2, THEN conjunct2, rule_format,
        OF cmp_order_evals(6)]
    by (simp only: flip_x_eval)
  show ?thesis
    by (intro conjI cmp_order_evals r_tie r_lt r_gt rt_tie rt_lt rt_gt rf_tie rf_lt rf_gt
        rtf_tie rtf_lt rtf_gt)
qed

text \<open>
  The rotational aligner on a tie: both candidates score 10 against the flat
  reference, and the image returned holds the samples of the second candidate, not
  those of the first.
\<close>

theorem composite_tie_counterexample:
  "RotationalAligner_candidates test_backend Map.empty (Some (image2x2 [1, 2, 3, 4]))
     (image2x2 [0, 0, 0, 0]) =
     Inr (with_transform [1, 2, 3, 4] Transform_new, with_transform [4, 3, 2, 1] Transform_new, 0) \<and>
   cmp test_backend ''dot'' Map.empty (with_transform [1, 2, 3, 4] Transform_new)
     (image2x2 [0, 0, 0, 0]) =
   cmp test_backend ''dot'' Map.empty (with_transform [4, 3, 2, 1] Transform_new)
     (image2x2 [0, 0, 0, 0]) \<and>
   RotationalAligner_align test_backend Map.empty (Some (image2x2 [1, 2, 3, 4]))
     (Some (image2x2 [0, 0, 0, 0])) ''dot'' Map.empty =
     Inr (Some (with_transform [4, 3, 2, 1] (Transform_new\<lparr>alpha := - 180\<rparr>))) \<and>
   rdata (with_transform [4, 3, 2, 1] (Transform_new\<lparr>alpha := - 180\<rparr>)) \<noteq>
   rdata (with_transform [1, 2, 3, 4] Transform_new)"
  by (intro conjI rotational_candidates_eval cmp_order_evals(1) rotational_tie_eval)
     (simp add: image_sel)

subsection \<open>The mirrored winner is flipped back\<close>

text \<open>
  C7. In the rotate_translate_flip aligner, whenever the candidate aligned against
  the mirrored reference has the strictly lower score, the image returned is that
  candidate flipped about the x axis.
\<close>

theorem rtf_mirrored_winner_is_flipped:
  assumes "RotateTranslateFlipAligner_candidates b params this_img to cn cp =
             Inr (c1, c2, t, flipped)"
    and "cmp b cn cp c2 flipped < cmp b cn cp c1 t"
  shows "RotateTranslateFlipAligner_align b params this_img to cn cp =
           Inr (Some (flip_x b c2))"
  using assms by (simp add: rotate_translate_flip_not_less)

theorem rtf_mirrored_winner_is_flipped_witness:
  "RotateTranslateFlipAligner_candidates test_backend Map.empty (Some (image2x2 [1, 2, 3, 4]))
     (Some (image2x2 [2, 1, 4, 3])) ''dot'' Map.empty =
     Inr (with_transform [1, 2, 3, 4] Transform_new,
          with_transform [1, 2, 3, 4] (Transform_new\<lparr>mirror := True\<rparr>),
          image2x2 [2, 1, 4, 3], image2x2 [1, 2, 3, 4]) \<and>
   cmp test_backend ''dot'' Map.empty
     (with_transform [1, 2, 3, 4] (Transform_new\<lparr>mirror := True\<rparr>)) (image2x2 [1, 2, 3, 4])
   < cmp test_backend ''dot'' Map.empty (with_transform [1, 2, 3, 4] Transform_new)
       (image2x2 [2, 1, 4, 3]) \<and>
   RotateTranslateFlipAligner_align test_backend Map.empty (Some (image2x2 [1, 2, 3, 4]))
     (Some (image2x2 [2, 1, 4, 3])) ''dot'' Map.empty =
     Inr (Some (with_transform [2, 1, 4, 3] (Transform_new\<lparr>mirror := True\<rparr>)))"
proof -
  have less: "cmp test_backend ''dot'' Map.empty
     (with_transform [1, 2, 3, 4] (Transform_new\<lparr>mirror := True\<rparr>)) (image2x2 [1, 2, 3, 4])
   < cmp test_backend ''dot'' Map.empty (with_transform [1, 2, 3, 4] Transform_new)
       (image2x2 [2, 1, 4, 3])"
    by (simp add: cmp_eval)
  have "RotateTranslateFlipAligner_align test_backend Map.empty (Some (image2x2 [1, 2, 3, 4]))
     (Some (image2x2 [2, 1, 4, 3])) ''dot'' Map.empty =
     Inr (Some (flip_x test_backend
       (with_transform [1, 2, 3, 4] (Transform_new\<lparr>mirror := True\<rparr>))))"
    by (rule rtf_mirrored_winner_is_flipped[OF rtf_candidates_mirror_eval less])
  then have "RotateTranslateFlipAligner_align test_backend Map.empty
     (Some (image2x2 [1, 2, 3, 4])) (Some (image2x2 [2, 1, 4, 3])) ''dot'' Map.empty =
     Inr (Some (with_transform [2, 1, 4, 3] (Transform_new\<lparr>mirror := True\<rparr>)))"
    by (simp add: flip_x_eval)
  then show ?thesis
    using rtf_candidates_mirror_eval less by blast
qed

subsection \<open>Rounding to single and double precision\<close>

lemma round_even_nonneg: "0 \<le> y \<Longrightarrow> 0 \<le> round_even y"
  by (simp add: round_even_def Let_def)

lemma round_even_nonpos: "y \<le> 0 \<Longrightarrow> round_even y \<le> 0"
proof -
  assume y: "y \<le> 0"
  show ?thesis
  proof (cases "y = 0")
    case True
    then show ?thesis by (simp add: round_even_def Let_def)
  next
    case False
    then have "y < 0" using y by simp
    then have "\<lfloor>y\<rfloor> < 0" by (simp only: floor_less_zero)
    then have "\<lfloor>y\<rfloor> + 1 \<le> 0" by linarith
    then show ?thesis by (simp add: round_even_def Let_def)
  qed
qed

lemma round_even_ge_floor: "\<lfloor>y\<rfloor> \<le> round_even y"
  by (simp add: round_even_def Let_def)

lemma ieee_round_nonneg: "0 \<le> x \<Longrightarrow> 0 \<le> ieee_round p emin x"
  by (simp add: ieee_round_def Let_def round_even_nonneg)

lemma ieee_round_nonpos: "x \<le> 0 \<Longrightarrow> ieee_round p emin x \<le> 0"
proof -
  assume x: "x \<le> 0"
  have "round_even (x / u) \<le> 0" if "0 < u" for u :: real
    using x that by (intro round_even_nonpos) (simp add: divide_le_0_iff)
  then show ?thesis
    by (simp add: ieee_round_def Let_def mult_le_0_iff)
qed

lemma ieee_round_pos:
  assumes "2 powr (of_int emin) \<le> x"
  shows "0 < ieee_round p emin x"
proof -
  have x: "0 < x" using assms by (rule less_le_trans[rotated]) simp
  define e where "e = \<lfloor>log 2 x\<rfloor>"
  have "of_int emin \<le> log 2 x" using assms x by (simp add: le_log_iff)
  then have emin: "emin \<le> e" unfolding e_def by (simp add: le_floor_iff)
  have "of_int e \<le> log 2 x" unfolding e_def by simp
  then have pe: "2 powr (of_int e) \<le> x" using x by (simp add: le_log_iff)
  define u :: real where "u = 2 powr (of_int e - of_nat (p - 1))"
  have u: "0 < u" unfolding u_def by simp
  have "u \<le> 2 powr (of_int e)" unfolding u_def by (rule powr_mono) simp_all
  then have "u \<le> x" using pe by simp
  then have "1 \<le> x / u" using u by (simp add: le_divide_eq)
  then have "1 \<le> \<lfloor>x / u\<rfloor>" by (simp add: le_floor_iff)
  then have "0 < round_even (x / u)" using round_even_ge_floor[of "x / u"] by linarith
  then have "0 < of_int (round_even (x / u)) * u" using u by simp
  then show ?thesis
    using x emin by (simp add: ieee_round_def Let_def e_def[symmetric] u_def max_def)
qed

lemma round_even_small: "\<bar>y\<bar> < 1 / 2 \<Longrightarrow> round_even y = 0"
proof -
  assume y: "\<bar>y\<bar> < 1 / 2"
  show ?thesis
  proof (cases "0 \<le> y")
    case True
    then have "y < 1" using y by linarith
    then have "\<lfloor>y\<rfloor> = 0" using True by (simp add: floor_eq_iff)
    moreover have "y < 1 / 2" using y True by linarith
    ultimately show ?thesis by (simp add: round_even_def Let_def)
  next
    case False
    then have "- 1 \<le> y" "y < 0" using y by linarith+
    then have f: "\<lfloor>y\<rfloor> = - 1" by (simp add: floor_eq_iff)
    have "1 / 2 < y + 1" using y False by linarith
    then show ?thesis unfolding round_even_def Let_def f by simp
  qed
qed

lemma ieee_round_underflow:
  assumes "\<bar>x\<bar> < 2 powr (of_int emin - of_nat p)" and p: "0 < p"
  shows "ieee_round p emin x = 0"
proof (cases "x = 0")
  case True
  then show ?thesis by (simp add: ieee_round_def)
next
  case False
  then have ax: "0 < \<bar>x\<bar>" by simp
  have "(2::real) powr (of_int emin - of_nat p) \<le> 2 powr (of_int emin)"
    by (rule powr_mono) simp_all
  with assms(1) have "\<bar>x\<bar> < 2 powr (of_int emin)" by (rule less_le_trans)
  then have "log 2 \<bar>x\<bar> < of_int emin" using ax by (simp add: log_less_iff)
  then have "\<lfloor>log 2 \<bar>x\<bar>\<rfloor> < emin" by (simp only: floor_less_iff)
  then have m: "max \<lfloor>log 2 \<bar>x\<bar>\<rfloor> emin = emin" by simp
  define u :: real where "u = 2 powr (of_int emin - of_nat (p - 1))"
  have u: "0 < u" unfolding u_def by simp
  have "of_nat (p - 1) = (of_nat p :: real) - 1" using p by (simp add: of_nat_diff)
  then have "of_int emin - of_nat (p - 1) = (of_int emin - of_nat p) + (1::real)" by simp
  then have "u = 2 powr ((of_int emin - of_nat p) + 1)" unfolding u_def by (simp only:)
  also have "\<dots> = 2 powr (of_int emin - of_nat p) * 2 powr 1" by (rule powr_add)
  finally have "u / 2 = 2 powr (of_int emin - of_nat p)" by simp
  with assms(1) have "\<bar>x\<bar> < u / 2" by simp
  then have "\<bar>x\<bar> / u < 1 / 2" using u by (simp add: divide_less_eq)
  then have "\<bar>x / u\<bar> < 1 / 2" using u by simp
  then have "round_even (x / u) = 0" by (rule round_even_small)
  then have "of_int (round_even (x / u)) * u = 0" by simp
  then show ?thesis
    unfolding ieee_round_def Let_def m u_def using False by simp
qed

lemma float_round_nonneg: "0 \<le> x \<Longrightarrow> 0 \<le> float_round x"
  unfolding float_round_def by (rule ieee_round_nonneg)

lemma float_round_nonpos: "x \<le> 0 \<Longrightarrow> float_round x \<le> 0"
  unfolding float_round_def by (rule ieee_round_nonpos)

lemma double_round_nonneg: "0 \<le> x \<Longrightarrow> 0 \<le> double_round x"
  unfolding double_round_def by (rule ieee_round_nonneg)

lemma float_round_pos: "2 powr (- 126) \<le> x \<Longrightarrow> 0 < float_round x"
  unfolding float_round_def using ieee_round_pos[of "- 126" x 24] by simp

lemma float_round_underflow: "\<bar>x\<bar> < 2 powr (- 150) \<Longrightarrow> float_round x = 0"
  unfolding float_round_def using ieee_round_underflow[of x "- 126" 24] by simp

lemma float_round_zero: "float_round 0 = 0"
  by (simp add: float_round_def ieee_round_def)

lemma float_round_two: "float_round 2 = 2"
proof -
  have "\<lfloor>log 2 (2::real)\<rfloor> = 1" by simp
  then have "ieee_round 24 (- 126) 2 =
     of_int (round_even (2 / 2 powr (- 22))) * 2 powr (- 22)"
    by (simp add: ieee_round_def Let_def)
  moreover have p: "(2::real) powr (- 22) = 1 / 2 ^ 22"
    by (simp add: powr_minus_divide powr_numeral del: power_numeral)
  ultimately show ?thesis
    by (simp add: float_round_def round_even_def Let_def)
qed

lemma float_round_tiny_double: "float_round (1 / 10 ^ 50) = 0" "float_round (- (1 / 10 ^ 50)) = 0"
proof -
  have "(2::real) powr (- 150) = 1 / 2 ^ 150"
    by (simp add: powr_minus_divide powr_numeral del: power_numeral)
  moreover have "(2::real) ^ 150 < 10 ^ 50" by simp
  ultimately have "\<bar>1 / 10 ^ 50 :: real\<bar> < 2 powr (- 150)" by (simp add: field_simps)
  then show "float_round (1 / 10 ^ 50) = 0" "float_round (- (1 / 10 ^ 50)) = 0"
    by (simp_all add: float_round_underflow)
qed

subsection \<open>The step checks of the slow-exhaustive aligner\<close>

lemma deg2rad_nonneg: "0 \<le> float_round deg2rad"
  by (simp add: deg2rad_def M_PI_def float_round_nonneg double_round_nonneg)

lemma atan2_pos: "0 < y \<Longrightarrow> 0 < atan2 y x"
proof -
  assume y: "0 < y"
  consider "0 < x" | "x < 0" | "x = 0" by linarith
  then show ?thesis
  proof cases
    case 1
    then show ?thesis using y by (simp add: atan2_def)
  next
    case 2
    have "- (pi / 2) < arctan (y / x)" by (rule arctan_lbound)
    then have "0 < arctan (y / x) + pi" using pi_gt_zero by linarith
    then show ?thesis using 2 y by (simp add: atan2_def)
  next
    case 3
    then show ?thesis using y by (simp add: atan2_def)
  qed
qed

lemma slow_setup_cases:
  assumes "flip_option params = Inr flip" "maxshift_option params = Inr m"
    "angstep_option params = Inr a" "transtep_option params = Inr ts"
    "flip \<noteq> None \<or> to \<noteq> None"
  shows "RTFSlowExhaustiveAligner_setup b params (Some img) to =
     (let angle_step = (if a = 0 then float_round (atan2 2 (int_to_float (nx img)))
                        else float_round (a * float_round deg2rad)) in
      if ts \<le> 0 then Inl (InvalidParameterException ''transstep must be greater than 0'')
      else if angle_step \<le> 0
      then Inl (InvalidParameterException ''angstep must be greater than 0'')
      else Inr \<lparr>moving_copy = img,
                 mirrored_ref = (case flip of Some f \<Rightarrow> f | None \<Rightarrow> flip_x b (the to)),
                 max_shift = (if m < 0 then c_div (nx img) 10 else m),
                 ang_step = angle_step, tr_step = ts\<rparr>)"
proof (cases flip)
  case (Some f)
  then show ?thesis
    using assms(1-4) by (simp add: RTFSlowExhaustiveAligner_setup_def deref_def Let_def)
next
  case None
  then obtain t where "to = Some t" using assms(5) by auto
  then show ?thesis
    using None assms(1-4) by (simp add: RTFSlowExhaustiveAligner_setup_def deref_def Let_def)
qed

lemma slow_setup_rejects:
  assumes "flip_option params = Inr flip" "maxshift_option params = Inr m"
    "angstep_option params = Inr a" "transtep_option params = Inr ts"
    "flip \<noteq> None \<or> to \<noteq> None" "ts \<le> 0 \<or> a < 0"
  shows "RTFSlowExhaustiveAligner_setup b params (Some img) to =
     Inl (InvalidParameterException
            (if ts \<le> 0 then ''transstep must be greater than 0''
             else ''angstep must be greater than 0''))"
proof (cases "ts \<le> 0")
  case True
  then show ?thesis
    unfolding slow_setup_cases[OF assms(1-5)] by (simp add: Let_def)
next
  case False
  then have a: "a < 0" using assms(6) by simp
  then have "a * float_round deg2rad \<le> 0"
    using deg2rad_nonneg by (simp add: mult_le_0_iff)
  then have "float_round (a * float_round deg2rad) \<le> 0" by (rule float_round_nonpos)
  then show ?thesis
    unfolding slow_setup_cases[OF assms(1-5)] using False a by (simp add: Let_def)
qed

lemma slow_align_after_setup:
  assumes "RTFSlowExhaustiveAligner_setup b params this_img (Some t) = Inr cfg"
  shows "\<not> fails (RTFSlowExhaustiveAligner_align b params this_img (Some t) cn cp)"
proof -
  have "\<not> fails (Option.bind s1 (\<lambda>bst1. Option.bind (s2 bst1) (\<lambda>bst2. Some (Inr (r bst2)))))"
    for s1 :: "best option" and s2 :: "best \<Rightarrow> best option" and r :: "best \<Rightarrow> EMData option"
  proof (cases s1)
    case None
    then show ?thesis by (simp add: fails_def)
  next
    case (Some bst1)
    then show ?thesis by (cases "s2 bst1") (simp_all add: fails_def)
  qed
  then show ?thesis
    by (simp add: RTFSlowExhaustiveAligner_align_def assms)
qed

text \<open>
  C6, as the code has it. For a call of the slow-exhaustive aligner with a moving
  image, a reference or a \<^verbatim>\<open>flip\<close> image, and options of the right types, read
  as the single-precision values \<open>ts\<close> and \<open>a\<close> the code converts them to: when
  \<^verbatim>\<open>transtep\<close> is at most 0 or \<^verbatim>\<open>angstep\<close> is below 0 the call throws an
  \<^verbatim>\<open>InvalidParameterException\<close>, whatever the image operations compute.
\<close>

theorem slow_exhaustive_step_check:
  assumes "flip_option params = Inr flip" "maxshift_option params = Inr m"
    "angstep_option params = Inr a" "transtep_option params = Inr ts"
    "flip \<noteq> None \<or> to \<noteq> None"
    "ts \<le> 0 \<or> a < 0"
  shows "RTFSlowExhaustiveAligner_align b params (Some img) to cmp_name cmp_params =
           Some (Inl (InvalidParameterException
                        (if ts \<le> 0 then ''transstep must be greater than 0''
                         else ''angstep must be greater than 0'')))"
  using slow_setup_rejects[OF assms]
  by (simp add: RTFSlowExhaustiveAligner_align_def)

lemma slow_options_eval:
  "flip_option [''angstep'' \<mapsto> FLOAT 0, ''transtep'' \<mapsto> FLOAT 1] = Inr None"
  "maxshift_option [''angstep'' \<mapsto> FLOAT 0, ''transtep'' \<mapsto> FLOAT 1] = Inr (- 1)"
  "angstep_option [''angstep'' \<mapsto> FLOAT 0, ''transtep'' \<mapsto> FLOAT 1] = Inr 0"
  "transtep_option [''angstep'' \<mapsto> FLOAT 0, ''transtep'' \<mapsto> FLOAT 1] = Inr 1"
  "flip_option [''transtep'' \<mapsto> FLOAT 0] = Inr None"
  "maxshift_option [''transtep'' \<mapsto> FLOAT 0] = Inr (- 1)"
  "angstep_option [''transtep'' \<mapsto> FLOAT 0] = Inr 0"
  "transtep_option [''transtep'' \<mapsto> FLOAT 0] = Inr 0"
  by (simp_all add: flip_option_def maxshift_option_def angstep_option_def transtep_option_def
      dict_get_def set_default_def)

lemma slow_options_negative_eval:
  "flip_option [''angstep'' \<mapsto> FLOAT (- 1)] = Inr None"
  "maxshift_option [''angstep'' \<mapsto> FLOAT (- 1)] = Inr (- 1)"
  "angstep_option [''angstep'' \<mapsto> FLOAT (- 1)] = Inr (- 1)"
  "transtep_option [''angstep'' \<mapsto> FLOAT (- 1)] = Inr 1"
  by (simp_all add: flip_option_def maxshift_option_def angstep_option_def transtep_option_def
      dict_get_def set_default_def)

text \<open>
  Options stored in double precision are rounded to single precision before the
  checks: a \<^verbatim>\<open>transtep\<close> of 1e-50 is read as 0, and so is an \<^verbatim>\<open>angstep\<close> of
  -1e-50, which then selects the default step.
\<close>

lemma slow_options_double_eval:
  "flip_option [''transtep'' \<mapsto> DOUBLE (1 / 10 ^ 50)] = Inr None"
  "maxshift_option [''transtep'' \<mapsto> DOUBLE (1 / 10 ^ 50)] = Inr (- 1)"
  "angstep_option [''transtep'' \<mapsto> DOUBLE (1 / 10 ^ 50)] = Inr 0"
  "transtep_option [''transtep'' \<mapsto> DOUBLE (1 / 10 ^ 50)] = Inr 0"
  "angstep_option [''angstep'' \<mapsto> DOUBLE (- (1 / 10 ^ 50))] = Inr 0"
  by (simp_all add: flip_option_def maxshift_option_def angstep_option_def transtep_option_def
      dict_get_def set_default_def float_round_tiny_double del: power_numeral)

lemma default_angle_step_eval:
  "float_round (atan2 2 (int_to_float 2)) = float_round (pi / 4)" "0 < float_round (pi / 4)"
proof -
  show "float_round (atan2 2 (int_to_float 2)) = float_round (pi / 4)"
    by (simp add: int_to_float_def float_round_two atan2_def arctan_one)
  have "(2::real) powr (- 126) \<le> 2 powr (- 1)" by (rule powr_mono) simp_all
  also have "\<dots> = 1 / 2" by (simp add: powr_minus_divide)
  also have "\<dots> \<le> pi / 4" using pi_ge_two by simp
  finally show "0 < float_round (pi / 4)" by (rule float_round_pos)
qed

lemma slow_setup_eval:
  "RTFSlowExhaustiveAligner_setup test_backend [''angstep'' \<mapsto> FLOAT 0, ''transtep'' \<mapsto> FLOAT 1]
     (Some (image2x2 [1, 2, 3, 4])) (Some (image2x2 [0, 0, 0, 0])) =
   Inr \<lparr>moving_copy = image2x2 [1, 2, 3, 4], mirrored_ref = image2x2 [0, 0, 0, 0],
        max_shift = 0, ang_step = float_round (pi / 4), tr_step = 1\<rparr>"
  using default_angle_step_eval(2)
  by (simp add: RTFSlowExhaustiveAligner_setup_def slow_options_eval deref_def flip_x_eval
      image_sel c_div_def default_angle_step_eval(1) Let_def not_le)

text \<open>
  An \<^verbatim>\<open>angstep\<close> of 0 is not rejected: the step becomes atan2(2, 2), pi / 4 rounded
  to single precision, both checks pass and the call does not fail.
\<close>

theorem slow_exhaustive_zero_angstep_counterexample:
  "angstep_option [''angstep'' \<mapsto> FLOAT 0, ''transtep'' \<mapsto> FLOAT 1] = Inr 0 \<and>
   RTFSlowExhaustiveAligner_setup test_backend [''angstep'' \<mapsto> FLOAT 0, ''transtep'' \<mapsto> FLOAT 1]
     (Some (image2x2 [1, 2, 3, 4])) (Some (image2x2 [0, 0, 0, 0])) =
   Inr \<lparr>moving_copy = image2x2 [1, 2, 3, 4], mirrored_ref = image2x2 [0, 0, 0, 0],
        max_shift = 0, ang_step = float_round (pi / 4), tr_step = 1\<rparr> \<and>
   \<not> fails
     (RTFSlowExhaustiveAligner_align test_backend [''angstep'' \<mapsto> FLOAT 0, ''transtep'' \<mapsto> FLOAT 1]
        (Some (image2x2 [1, 2, 3, 4])) (Some (image2x2 [0, 0, 0, 0])) ''dot'' Map.empty)"
  using slow_options_eval(3) slow_setup_eval slow_align_after_setup[OF slow_setup_eval]
  by blast

theorem slow_exhaustive_step_check_witness:
  "flip_option [''transtep'' \<mapsto> FLOAT 0] = Inr None \<and>
   maxshift_option [''transtep'' \<mapsto> FLOAT 0] = Inr (- 1) \<and>
   angstep_option [''transtep'' \<mapsto> FLOAT 0] = Inr 0 \<and>
   transtep_option [''transtep'' \<mapsto> FLOAT 0] = Inr 0 \<and>
   RTFSlowExhaustiveAligner_align test_backend [''transtep'' \<mapsto> FLOAT 0]
     (Some (image2x2 [1, 2, 3, 4])) (Some (image2x2 [0, 0, 0, 0])) ''dot'' Map.empty =
     Some (Inl (InvalidParameterException ''transstep must be greater than 0'')) \<and>
   angstep_option [''angstep'' \<mapsto> FLOAT (- 1)] = Inr (- 1) \<and>
   transtep_option [''angstep'' \<mapsto> FLOAT (- 1)] = Inr 1 \<and>
   RTFSlowExhaustiveAligner_align test_backend [''angstep'' \<mapsto> FLOAT (- 1)]
     (Some (image2x2 [1, 2, 3, 4])) (Some (image2x2 [0, 0, 0, 0])) ''dot'' Map.empty =
     Some (Inl (InvalidParameterException ''angstep must be greater than 0'')) \<and>
   transtep_option [''transtep'' \<mapsto> DOUBLE (1 / 10 ^ 50)] = Inr 0 \<and>
   RTFSlowExhaustiveAligner_align test_backend [''transtep'' \<mapsto> DOUBLE (1 / 10 ^ 50)]
     (Some (image2x2 [1, 2, 3, 4])) (Some (image2x2 [0, 0, 0, 0])) ''dot'' Map.empty =
     Some (Inl (InvalidParameterException ''transstep must be greater than 0''))"
proof -
  have present: "(None :: EMData option) \<noteq> None \<or> Some (image2x2 [0, 0, 0, 0]) \<noteq> None"
    by simp
  have bad0: "(0::real) \<le> 0 \<or> (0::real) < 0" by simp
  have bad1: "(1::real) \<le> 0 \<or> (- 1::real) < 0" by simp
  have r0: "RTFSlowExhaustiveAligner_align test_backend [''transtep'' \<mapsto> FLOAT 0]
     (Some (image2x2 [1, 2, 3, 4])) (Some (image2x2 [0, 0, 0, 0])) ''dot'' Map.empty =
     Some (Inl (InvalidParameterException ''transstep must be greater than 0''))"
    using slow_exhaustive_step_check[OF slow_options_eval(5-8) present bad0,
        of test_backend "image2x2 [1, 2, 3, 4]" "''dot''" Map.empty]
    by simp
  have r1: "RTFSlowExhaustiveAligner_align test_backend [''angstep'' \<mapsto> FLOAT (- 1)]
     (Some (image2x2 [1, 2, 3, 4])) (Some (image2x2 [0, 0, 0, 0])) ''dot'' Map.empty =
     Some (Inl (InvalidParameterException ''angstep must be greater than 0''))"
    using slow_exhaustive_step_check[OF slow_options_negative_eval present bad1,
        of test_backend "image2x2 [1, 2, 3, 4]" "''dot''" Map.empty]
    by simp
  have r2: "RTFSlowExhaustiveAligner_align test_backend [''transtep'' \<mapsto> DOUBLE (1 / 10 ^ 50)]
     (Some (image2x2 [1, 2, 3, 4])) (Some (image2x2 [0, 0, 0, 0])) ''dot'' Map.empty =
     Some (Inl (InvalidParameterException ''transstep must be greater than 0''))"
    using slow_exhaustive_step_check[OF slow_options_double_eval(1-4) present bad0,
        of test_backend "image2x2 [1, 2, 3, 4]" "''dot''" Map.empty]
    by simp
  show ?thesis
    by (intro conjI slow_options_eval(5-8) slow_options_negative_eval(3,4)
        slow_options_double_eval(4) r0 r1 r2)
qed

subsection \<open>The null reference image\<close>

text \<open>
  C2, as the code has it. Called with a null reference, the rotational aligner throws
  an \<^verbatim>\<open>InvalidParameterException\<close> before anything else, and the refine aligner
  returns the null pointer before anything else and throws nothing.
\<close>

theorem null_reference_rotational_and_refine:
  "RotationalAligner_align b params this_img None cmp_name cmp_params =
     Inl (InvalidParameterException
            ''Can not rotational align - the image to align to is NULL'') \<and>
   RefineAligner_align g b' params' this_img' None cmp_name' cmp_params' = Inr None"
  by (simp add: RotationalAligner_align_def RefineAligner_align_def)

text \<open>
  The refine aligner with a null reference: the call does not fail, it returns null.
\<close>

theorem refine_null_reference_counterexample:
  "\<not> isl (RefineAligner_align test_minimizer test_backend Map.empty
            (Some (image2x2 [1, 2, 3, 4])) None ''dot'' Map.empty) \<and>
   RefineAligner_align test_minimizer test_backend Map.empty
     (Some (image2x2 [1, 2, 3, 4])) None ''dot'' Map.empty = Inr None"
  by (simp add: RefineAligner_align_def)

text \<open>
  Neither exhaustive aligner checks the reference. Without a \<^verbatim>\<open>flip\<close> image the
  slow one calls \<^verbatim>\<open>to->process\<close> through the null pointer (line 763), before the
  step checks; the fast one does so at line 499, once \<^verbatim>\<open>maxshift\<close> has passed its
  check.
\<close>

lemma slow_exhaustive_null_reference:
  assumes "flip_option params = Inr None" "maxshift_option params = Inr m"
  shows "RTFSlowExhaustiveAligner_align b params (Some img) None cn cp =
           Some (Inl NullPointerDereference)"
  using assms
  by (simp add: RTFSlowExhaustiveAligner_align_def RTFSlowExhaustiveAligner_setup_def deref_def)

lemma fast_exhaustive_null_reference:
  assumes "flip_option params = Inr flip"
    and "to_int (dict_get (set_default params ''maxshift'' (INT_obj (c_div (nx img) 8)))
           ''maxshift'') = Inr m"
  shows "RTFExhaustiveAligner_align b params (Some img) None cn cp =
           Some (Inl (if m < 2
                      then InvalidParameterException
                             ''maxshift must be greater than or equal to 2''
                      else NullPointerDereference))"
  using assms
  by (simp add: RTFExhaustiveAligner_align_def RTFExhaustiveAligner_setup_def deref_def Let_def)

subsection \<open>The size of the image returned\<close>

text \<open>
  Every aligner but the rotate_precenter aligner returns the moving image
  (processed, transformed, with a transform attached): whenever the processors and
  \<^verbatim>\<open>transform\<close> of the image library keep the size of an image, so do they.
\<close>

lemma dims_set_attr [simp]: "dims (set_attr key t img) = dims img"
  by (simp add: dims_def set_attr_def)

lemma dims_get_set_align_attr [simp]: "dims (get_set_align_attr key img from_img upd) = dims img"
  by (simp add: get_set_align_attr_def Let_def)

lemma dims_get_align_attr [simp]: "dims (get_align_attr key img upd) = dims img"
  by (simp add: get_align_attr_def Let_def)

lemma translational_keeps_dims:
  assumes p: "\<And>name d i. dims (process b name d i) = dims i"
    and r: "TranslationalAligner_align b params (Some img) to = Inr (Some r)"
  shows "dims r = dims img"
proof -
  obtain v where "r = translational_result b img v"
    using translational_align_Some[OF r] by blast
  then show ?thesis
    by (simp add: translational_result_def Let_def p split: prod.splits)
qed

lemma rotational_keeps_dims:
  assumes p: "\<And>name d i. dims (process b name d i) = dims i"
    and r: "RotationalAligner_align b params (Some img) to cn cp = Inr (Some r)"
  shows "dims r = dims img"
proof -
  obtain t where t: "to = Some t"
    using r by (cases to) (simp_all add: RotationalAligner_align_def)
  obtain c1 c2 a where c: "RotationalAligner_candidates b params (Some img) t = Inr (c1, c2, a)"
    and res: "r = get_align_attr ''xform.align2d'' c1 (set_rotation a) \<or>
              r = get_align_attr ''xform.align2d'' c2 (set_rotation (a - 180))"
    using r unfolding t RotationalAligner_align_def
    by (auto simp: ebind_Inr Let_def split: if_splits)
  obtain m where a180: "align_180_ambiguous b (Some img) (Some t) m = Inr c1"
    and c2: "c2 = process b ''math.rotate.180'' Map.empty c1"
    using c unfolding RotationalAligner_candidates_def by (auto simp: ebind_Inr)
  have "dims c1 = dims img"
    using a180 by (auto simp: align_180_ambiguous_def deref_def Let_def p split: if_splits)
  then show ?thesis
    using res c2 by (auto simp: p)
qed



lemma refine_align_Some:
  assumes "RefineAligner_align g b params (Some img) (Some t) cn cp = Inr (Some r)"
  shows "\<exists>mode seed steps precision maxiter.
          r = refine_solution g b cn cp img t mode seed steps precision maxiter"
proof -
  have "ebind (int_option params ''mode'' 0) (\<lambda>mode.
          ebind (seed_option params) (\<lambda>seed.
          ebind (float_option params ''stepx'' 1) (\<lambda>stepx.
          ebind (float_option params ''stepy'' 1) (\<lambda>stepy.
          ebind (float_option params ''stepaz'' 5) (\<lambda>stepaz.
          ebind (float_option params ''precision'' 0.04) (\<lambda>precision.
          ebind (int_option params ''maxiter'' 28) (\<lambda>maxiter.
            Inr (Some (refine_solution g b cn cp img t mode seed
                         (stepx, stepy, stepaz) precision maxiter))))))))) = Inr (Some r)"
    using assms by (simp add: RefineAligner_align_def deref_def)
  then obtain mode seed stepx stepy stepaz precision maxiter where
    "r = refine_solution g b cn cp img t mode seed (stepx, stepy, stepaz) precision maxiter"
    unfolding ebind_Inr by (elim exE conjE) auto
  then show ?thesis by blast
qed

lemma refine_solution_dims:
  assumes tr: "\<And>t i. dims (transform b t i) = dims i"
  shows "dims (refine_solution g b cn cp img t mode seed steps precision maxiter) = dims img"
  by (simp add: refine_solution_def Let_def tr split: prod.splits)

lemma refine_keeps_dims:
  assumes tr: "\<And>t i. dims (transform b t i) = dims i"
    and r: "RefineAligner_align g b params (Some img) to cn cp = Inr (Some r)"
  shows "dims r = dims img"
proof -
  obtain t where t: "to = Some t"
    using r by (cases to) (simp_all add: RefineAligner_align_def)
  show ?thesis
    using refine_align_Some[OF r[unfolded t]] refine_solution_dims[of b, OF tr] by metis
qed

lemma slow_exhaustive_keeps_dims:
  assumes tr: "\<And>t i. dims (transform b t i) = dims i"
    and r: "RTFSlowExhaustiveAligner_align b params (Some img) to cn cp = Some (Inr (Some r))"
  shows "dims r = dims img"
proof -
  obtain cfg where cfg: "RTFSlowExhaustiveAligner_setup b params (Some img) to = Inr cfg"
    using r unfolding RTFSlowExhaustiveAligner_align_def by (auto split: sum.splits)
  have mc: "moving_copy cfg = img"
    using cfg unfolding RTFSlowExhaustiveAligner_setup_def
    by (auto simp: ebind_Inr deref_def Let_def split: if_splits)
  have "\<exists>bst. r = slow_result b (moving_copy cfg) bst"
    using r unfolding RTFSlowExhaustiveAligner_align_def cfg
    by (auto split: option.splits bind_splits)
  then show ?thesis
    unfolding mc by (auto simp: slow_result_def Let_def tr)
qed

lemma fast_exhaustive_keeps_dims:
  assumes tr: "\<And>t i. dims (transform b t i) = dims i"
    and r: "RTFExhaustiveAligner_align b params (Some img) to cn cp = Some (Inr (Some r))"
  shows "dims r = dims img"
proof -
  have "\<exists>bst. r = fast_result b img bst"
    using r unfolding RTFExhaustiveAligner_align_def
    by (auto split: sum.splits option.splits bind_splits)
  then show ?thesis
    by (auto simp: fast_result_def Let_def tr)
qed

lemma align_180_keeps_dims:
  assumes p: "\<And>name d i. dims (process b name d i) = dims i"
    and r: "align_180_ambiguous b (Some img) to m = Inr r"
  shows "dims r = dims img"
  using r by (auto simp: align_180_ambiguous_def deref_def Let_def p ebind_Inr split: if_splits)

lemma update_attr_dims: "update_attr key upd img = Inr r \<Longrightarrow> dims r = dims img"
  by (auto simp: update_attr_def ebind_Inr)

lemma rotate_translate_keeps_dims:
  assumes p: "\<And>name d i. dims (process b name d i) = dims i"
    and r: "RotateTranslateAligner_align b params (Some img) to cn cp = Inr (Some r)"
  shows "dims r = dims img"
proof -
  obtain c1 c2 a where c: "RotateTranslateAligner_candidates b params (Some img) to = Inr (c1, c2, a)"
    and res: "(\<exists>upd. update_attr ''xform.align2d'' upd c1 = Inr r) \<or>
              (\<exists>upd. update_attr ''xform.align2d'' upd c2 = Inr r)"
    using r unfolding RotateTranslateAligner_align_def
    by (auto simp: ebind_Inr Let_def split: if_splits)
  obtain m rot_align tp where a180: "align_180_ambiguous b (Some img) to m = Inr rot_align"
    and t1: "TranslationalAligner_align b tp (Some rot_align) to = Inr (Some c1)"
    and t2: "TranslationalAligner_align b tp
               (Some (process b ''math.rotate.180'' Map.empty rot_align)) to = Inr (Some c2)"
    using c unfolding RotateTranslateAligner_candidates_def
    by (auto simp: ebind_Inr Let_def deref_def split: option.splits)
  have d0: "dims rot_align = dims img"
    by (rule align_180_keeps_dims[OF p a180])
  have "dims c1 = dims img" "dims c2 = dims img"
    using translational_keeps_dims[OF p t1] translational_keeps_dims[OF p t2] d0 p by simp_all
  then show ?thesis
    using res update_attr_dims by metis
qed

lemma rotate_flip_keeps_dims:
  assumes p: "\<And>name d i. dims (process b name d i) = dims i"
    and r: "RotateFlipAligner_align b params (Some img) to cn cp = Inr (Some r)"
  shows "dims r = dims img"
proof -
  obtain c1 c2 t fl where c: "RotateFlipAligner_candidates b params (Some img) to cn cp =
      Inr (c1, c2, t, fl)" and res: "r = c1 \<or> r = flip_x b c2"
    using r unfolding RotateFlipAligner_align_def
    by (auto simp: ebind_Inr Let_def split: if_splits)
  obtain rp to2 c2' where r1: "RotationalAligner_align b rp (Some img) to cn cp = Inr (Some c1)"
    and r2: "RotationalAligner_align b rp (Some img) to2 cn cp = Inr (Some c2')"
    and c2: "c2 = get_align_attr ''xform.align2d'' c2' (set_mirror True)"
    using c unfolding RotateFlipAligner_candidates_def
    by (auto simp: ebind_Inr Let_def deref_def split: option.splits)
  have "dims c1 = dims img" "dims c2 = dims img"
    using rotational_keeps_dims[OF p r1] rotational_keeps_dims[OF p r2] c2 by simp_all
  then show ?thesis
    using res by (auto simp: flip_x_def p)
qed

lemma rotate_translate_flip_keeps_dims:
  assumes p: "\<And>name d i. dims (process b name d i) = dims i"
    and r: "RotateTranslateFlipAligner_align b params (Some img) to cn cp = Inr (Some r)"
  shows "dims r = dims img"
proof -
  obtain c1 c2 t fl where c: "RotateTranslateFlipAligner_candidates b params (Some img) to cn cp =
      Inr (c1, c2, t, fl)" and res: "r = c1 \<or> r = flip_x b c2"
    using r unfolding RotateTranslateFlipAligner_align_def
    by (auto simp: ebind_Inr Let_def split: if_splits)
  obtain rp to2 c2' where
    r1: "RotateTranslateAligner_align b rp (Some img) to cn cp = Inr (Some c1)"
    and r2: "RotateTranslateAligner_align b rp (Some img) to2 cn cp = Inr (Some c2')"
    and c2: "c2 = get_align_attr ''xform.align2d'' c2' (set_mirror True)"
    using c unfolding RotateTranslateFlipAligner_candidates_def
    by (auto simp: ebind_Inr Let_def deref_def split: option.splits)
  have "dims c1 = dims img" "dims c2 = dims img"
    using rotate_translate_keeps_dims[OF p r1] rotate_translate_keeps_dims[OF p r2] c2
    by simp_all
  then show ?thesis
    using res by (auto simp: flip_x_def p)
qed

lemma precenter_returns_correlation_map:
  assumes "RotatePrecenterAligner_align b (Some img) (Some t) = Inr (Some r)"
  shows "\<exists>e1 e2. (nx r, ny r, nz r) =
           (nx (calc_ccfx b e1 e2 0 (ny img)), ny (calc_ccfx b e1 e2 0 (ny img)),
            nz (calc_ccfx b e1 e2 0 (ny img)))"
proof -
  have "\<exists>e1 e2 upd from_img.
          r = get_set_align_attr ''xform.align2d'' (calc_ccfx b e1 e2 0 (ny img)) from_img upd"
    using assms by (auto simp: RotatePrecenterAligner_align_def deref_def Let_def)
  then obtain e1 e2 upd from_img where
    r: "r = get_set_align_attr ''xform.align2d'' (calc_ccfx b e1 e2 0 (ny img)) from_img upd"
    by blast
  have "(nx r, ny r, nz r) =
           (nx (calc_ccfx b e1 e2 0 (ny img)), ny (calc_ccfx b e1 e2 0 (ny img)),
            nz (calc_ccfx b e1 e2 0 (ny img)))"
    by (simp add: r get_set_align_attr_def set_attr_def Let_def)
  then show ?thesis by blast
qed

text \<open>
  C3. The rotate_precenter aligner returns the row-wise correlation of the two
  unwrapped images, not a copy of the moving image (for every image library, by
  \<open>precenter_returns_correlation_map\<close>): for a moving image of 16 by 16 samples the
  image returned is 128 samples long and one row high.
\<close>

theorem rotate_precenter_returns_correlation_map:
  "RotatePrecenterAligner_align test_backend (Some (blank_image 16 16 1))
     (Some (blank_image 16 16 1)) =
   Inr (Some \<lparr>nx = 128, ny = 1, nz = 1, rdata = [],
              attr_dict = [''xform.align2d'' \<mapsto> Transform_new\<lparr>alpha := - 360\<rparr>]\<rparr>)"
  by (simp add: RotatePrecenterAligner_align_def deref_def test_backend_sel blank_image_def
      get_set_align_attr_def set_attr_def set_rotation_def Let_def)

subsection \<open>The iteration cap of the refine aligner\<close>

lemma test_minimizer_sel:
  "fminimizer_set test_minimizer f x ss = (0, x)"
  "fminimizer_iterate test_minimizer f (n, px, py, pa) = (0, (Suc n, px, py, pa + 1))"
  "fminimizer_size test_minimizer s = 1"
  "fminimizer_x test_minimizer s = snd s"
  by (simp_all add: test_minimizer_def)

lemma refine_loop_never_converging:
  assumes "0 \<le> p" "p \<le> 1" "iter \<le> maxiter"
  shows "refine_loop test_minimizer f p maxiter (GSL_CONTINUE, iter, (n, px, py, pa)) =
     (GSL_CONTINUE, maxiter, (n + nat (maxiter - iter), px, py, pa + of_int (maxiter - iter)))"
  using assms(3)
proof (induction "nat (maxiter - iter)" arbitrary: iter n pa)
  case 0
  then have "iter = maxiter" by simp
  then show ?case by (simp add: refine_loop.simps)
next
  case (Suc k)
  then have lt: "iter < maxiter" and k: "k = nat (maxiter - (iter + 1))" and le: "iter + 1 \<le> maxiter"
    by auto
  have ts: "gsl_multimin_test_size 1 p = GSL_CONTINUE"
    using assms(1,2) by (simp add: gsl_multimin_test_size_def)
  have "refine_loop test_minimizer f p maxiter (GSL_CONTINUE, iter, (n, px, py, pa)) =
        refine_loop test_minimizer f p maxiter (GSL_CONTINUE, iter + 1, (Suc n, px, py, pa + 1))"
    using lt by (subst refine_loop.simps) (simp add: test_minimizer_sel ts)
  also have "\<dots> = (GSL_CONTINUE, maxiter,
      (Suc n + nat (maxiter - (iter + 1)), px, py, pa + 1 + of_int (maxiter - (iter + 1))))"
    by (rule Suc.hyps(1)[OF k le])
  also have "\<dots> = (GSL_CONTINUE, maxiter,
      (n + nat (maxiter - iter), px, py, pa + of_int (maxiter - iter)))"
    using lt by (simp add: nat_diff_distrib' Suc_nat_eq_nat_zadd1 algebra_simps)
  finally show ?case .
qed


lemma refine_loop_iter_bound:
  "refine_loop g f p maxiter (rval, iter, s) = (rval', iter', s') \<Longrightarrow>
   iter \<le> iter' \<and> iter' \<le> max iter maxiter"
proof (induction g f p maxiter "(rval, iter, s)" arbitrary: rval iter s rule: refine_loop.induct)
  case (1 g f precision maxiter rval iter s)
  show ?case
  proof (cases "rval = GSL_CONTINUE \<and> iter < maxiter")
    case False
    then show ?thesis using "1.prems" by (auto simp: refine_loop.simps)
  next
    case True
    obtain status s1 where it: "fminimizer_iterate g f s = (status, s1)"
      by (cases "fminimizer_iterate g f s")
    show ?thesis
    proof (cases "status = 0")
      case False
      then show ?thesis using "1.prems" True it by (auto simp: refine_loop.simps)
    next
      case z: True
      have "refine_loop g f precision maxiter
              (gsl_multimin_test_size (fminimizer_size g s1) precision, iter + 1, s1) =
            (rval', iter', s')"
        using "1.prems" True it z by (simp add: refine_loop.simps)
      from "1.hyps"[OF True it[symmetric] _ this] z
      show ?thesis using True by auto
    qed
  qed
qed

lemma refine_loop_default_eval:
  "refine_loop test_minimizer f 0.04 28 (GSL_CONTINUE, 1, (0, 0, 0, 0)) =
     (GSL_CONTINUE, 28, (27, 0, 0, 27))"
  using refine_loop_never_converging[of "0.04" 1 28 f 0 0 0 0] by simp

text \<open>
  C8. With the default options (\<^verbatim>\<open>maxiter\<close> 28, \<^verbatim>\<open>precision\<close> 0.04) and a
  minimizer whose simplex size never falls below the precision, the loop leaves with
  \<open>iter = 28\<close> after 27 iterations of the minimizer, and the point reached then is
  built into the transform of the image returned: reaching the cap is no error, and
  the cap is \<^verbatim>\<open>maxiter\<close> - 1 iterations.
\<close>

theorem refine_default_cap_is_27_iterations:
  "refine_loop test_minimizer
     (refalifn test_backend ''dot'' Map.empty (image2x2 [1, 2, 3, 4]) (image2x2 [0, 0, 0, 0]) False)
     0.04 28 (GSL_CONTINUE, 1, (0, 0, 0, 0)) = (GSL_CONTINUE, 28, (27, 0, 0, 27)) \<and>
   RefineAligner_align test_minimizer test_backend Map.empty (Some (image2x2 [1, 2, 3, 4]))
     (Some (image2x2 [0, 0, 0, 0])) ''dot'' Map.empty =
     Inr (Some (with_transform [1, 2, 3, 4] (Transform_new\<lparr>alpha := 27\<rparr>)))"
proof -
  have "RefineAligner_align test_minimizer test_backend Map.empty (Some (image2x2 [1, 2, 3, 4]))
     (Some (image2x2 [0, 0, 0, 0])) ''dot'' Map.empty =
     Inr (Some (with_transform [1, 2, 3, 4] (Transform_new\<lparr>alpha := 27\<rparr>)))"
    by (simp add: RefineAligner_align_def deref_def int_option_def float_option_def
        seed_option_def dict_get_def set_default_def refine_solution_def test_minimizer_sel
        refine_loop_never_converging test_backend_sel image_sel set_trans_def set_mirror_def
        Transform_2d_def Transform_new_def)
  then show ?thesis
    using refine_loop_default_eval by simp
qed

end
